theory Spec2Isabelle
  imports
    Complex_Main
    "HOL-Library.Char_ord"
    "HOL-Library.List_Lexorder"
    "HOL-Library.Multiset"
begin

section \<open>Chapter-marker export: the values of the program\<close>

text \<open>
  The repository holds two versions of one script: \<^verbatim>\<open>src/index.js\<close>, which reads the clips
  at a fixed path of the parsed document and accepts only two-part rational times, and
  \<^verbatim>\<open>src/unnamed/part_000\<close>, which walks the whole document and also accepts a one-part
  time. Functions of \<^verbatim>\<open>src/index.js\<close> keep their names; those of
  \<^verbatim>\<open>src/unnamed/part_000\<close> carry the suffix \<open>_permissive\<close> where the two differ.

  Strings are lists of code units below 256 (\<^typ>\<open>string\<close>).
\<close>

subsection \<open>Numbers\<close>

text \<open>
  A JavaScript number is \<open>NaN\<close>, an infinity, negative zero or a finite value. \<open>Fin 0\<close> is
  positive zero and \<open>NZero\<close> negative zero, which differ in the sign of a quotient. A finite
  double is modelled by the rational it stands for: rounding to 53 bits, overflow to an
  infinity and the exponent notation that \<^verbatim>\<open>toString\<close> uses from \<open>10^21\<close> on are not
  modelled, so the arithmetic below is that of the program wherever the doubles involved are
  exact.
\<close>

datatype jsnum = NaN | PInf | NInf | NZero | Fin rat

definition is_inf :: "jsnum \<Rightarrow> bool" where
  "is_inf x = (x = PInf \<or> x = NInf)"

definition is_zero :: "jsnum \<Rightarrow> bool" where
  "is_zero x = (x = NZero \<or> x = Fin 0)"

definition is_finite :: "jsnum \<Rightarrow> bool" where
  "is_finite x = (case x of Fin r \<Rightarrow> True | NZero \<Rightarrow> True | _ \<Rightarrow> False)"

text \<open>The sign bit.\<close>

definition negative :: "jsnum \<Rightarrow> bool" where
  "negative x = (case x of NInf \<Rightarrow> True | NZero \<Rightarrow> True | Fin r \<Rightarrow> r < 0 | _ \<Rightarrow> False)"

text \<open>The value of a finite number.\<close>

definition val :: "jsnum \<Rightarrow> rat" where
  "val x = (case x of Fin r \<Rightarrow> r | _ \<Rightarrow> 0)"

definition zero_of :: "bool \<Rightarrow> jsnum" where
  "zero_of s = (if s then NZero else Fin 0)"

definition inf_of :: "bool \<Rightarrow> jsnum" where
  "inf_of s = (if s then NInf else PInf)"

text \<open>A finite result \<open>r\<close>; a zero result takes the sign \<open>s\<close>.\<close>

definition fin :: "rat \<Rightarrow> bool \<Rightarrow> jsnum" where
  "fin r s = (if r = 0 then zero_of s else Fin r)"

text \<open>\<^verbatim>\<open>x / y\<close>\<close>

definition js_div :: "jsnum \<Rightarrow> jsnum \<Rightarrow> jsnum" where
  "js_div x y =
     (let s = (negative x \<noteq> negative y) in
      if x = NaN \<or> y = NaN then NaN
      else if is_inf x then (if is_inf y then NaN else inf_of s)
      else if is_inf y then zero_of s
      else if is_zero y then (if is_zero x then NaN else inf_of s)
      else fin (val x / val y) s)"

text \<open>\<^verbatim>\<open>x * y\<close>\<close>

definition js_mul :: "jsnum \<Rightarrow> jsnum \<Rightarrow> jsnum" where
  "js_mul x y =
     (let s = (negative x \<noteq> negative y) in
      if x = NaN \<or> y = NaN then NaN
      else if is_inf x then (if is_zero y then NaN else inf_of s)
      else if is_inf y then (if is_zero x then NaN else inf_of s)
      else fin (val x * val y) s)"

definition js_neg :: "jsnum \<Rightarrow> jsnum" where
  "js_neg x = (case x of NaN \<Rightarrow> NaN | PInf \<Rightarrow> NInf | NInf \<Rightarrow> PInf
                 | NZero \<Rightarrow> Fin 0 | Fin r \<Rightarrow> fin (- r) True)"

text \<open>\<^verbatim>\<open>x + y\<close>: a zero sum is negative only when both summands are negative zero.\<close>

definition js_add :: "jsnum \<Rightarrow> jsnum \<Rightarrow> jsnum" where
  "js_add x y =
     (if x = NaN \<or> y = NaN then NaN
      else if is_inf x then (if is_inf y \<and> x \<noteq> y then NaN else x)
      else if is_inf y then y
      else fin (val x + val y) (x = NZero \<and> y = NZero))"

text \<open>\<^verbatim>\<open>x - y\<close>\<close>

definition js_sub :: "jsnum \<Rightarrow> jsnum \<Rightarrow> jsnum" where
  "js_sub x y = js_add x (js_neg y)"

text \<open>\<^verbatim>\<open>Math.floor(x)\<close>\<close>

definition js_floor :: "jsnum \<Rightarrow> jsnum" where
  "js_floor x = (case x of Fin r \<Rightarrow> fin (of_int \<lfloor>r\<rfloor>) (r < 0) | _ \<Rightarrow> x)"

text \<open>Rounding toward zero.\<close>

definition trunc :: "rat \<Rightarrow> int" where
  "trunc q = (if q < 0 then \<lceil>q\<rceil> else \<lfloor>q\<rfloor>)"

text \<open>\<^verbatim>\<open>x % y\<close>: the remainder has the sign of the dividend.\<close>

definition js_rem :: "jsnum \<Rightarrow> jsnum \<Rightarrow> jsnum" where
  "js_rem x y =
     (if x = NaN \<or> y = NaN \<or> is_inf x \<or> is_zero y then NaN
      else if is_inf y then x
      else if is_zero x then x
      else fin (val x - val y * of_int (trunc (val x / val y))) (negative x))"

text \<open>\<^verbatim>\<open>x < y\<close>: false when either side is \<open>NaN\<close>; the two zeros are equal.\<close>

definition js_lt :: "jsnum \<Rightarrow> jsnum \<Rightarrow> bool" where
  "js_lt x y =
     (if x = NaN \<or> y = NaN then False
      else if x = PInf \<or> y = NInf then False
      else if x = NInf \<or> y = PInf then True
      else val x < val y)"

subsection \<open>Numbers as text\<close>

text \<open>The character of a decimal digit.\<close>

definition digit_char :: "nat \<Rightarrow> char" where
  "digit_char d = ''0123456789'' ! d"

function nat_text :: "nat \<Rightarrow> string" where
  "nat_text n = (if n < 10 then [digit_char n] else nat_text (n div 10) @ [digit_char (n mod 10)])"
  by pat_completeness auto
termination
  by (relation "measure id") auto

declare nat_text.simps [simp del]

definition int_text :: "int \<Rightarrow> string" where
  "int_text k = (if k < 0 then CHR ''-'' # nat_text (nat (- k)) else nat_text (nat k))"

text \<open>
  The digits after the point of a fraction \<open>0 \<le> f < 1\<close>, at most \<open>k\<close> of them.
\<close>

fun frac_text :: "nat \<Rightarrow> rat \<Rightarrow> string" where
  "frac_text 0 f = []"
| "frac_text (Suc k) f =
     (if f = 0 then []
      else digit_char (nat \<lfloor>f * 10\<rfloor>) # frac_text k (f * 10 - of_int \<lfloor>f * 10\<rfloor>))"

text \<open>
  \<^verbatim>\<open>x.toString()\<close>. An integer prints as its decimal digits, both zeros as \<^verbatim>\<open>0\<close>. For a
  finite number that is not an integer JavaScript prints the shortest decimal that reads
  back as the same double; with exact rationals that is approximated here by the expansion
  to seventeen places. The resolver never prints such a number
  (\<open>calculateChapterTime_prints_integers\<close> below).
\<close>

definition js_toString :: "jsnum \<Rightarrow> string" where
  "js_toString x =
     (case x of
        NaN \<Rightarrow> ''NaN''
      | PInf \<Rightarrow> ''Infinity''
      | NInf \<Rightarrow> ''-Infinity''
      | NZero \<Rightarrow> ''0''
      | Fin r \<Rightarrow>
          (if r = of_int \<lfloor>r\<rfloor> then int_text \<lfloor>r\<rfloor>
           else (if r < 0 then ''-'' else '''') @ nat_text (nat (trunc \<bar>r\<bar>)) @ ''.''
                @ frac_text 17 (\<bar>r\<bar> - of_int (trunc \<bar>r\<bar>))))"

subsection \<open>Strings\<close>

text \<open>\<^verbatim>\<open>s.replace(/s$/, '')\<close>: one \<^verbatim>\<open>s\<close> at the very end of the string is removed.\<close>

definition strip_s :: "string \<Rightarrow> string" where
  "strip_s s = (if s \<noteq> [] \<and> last s = CHR ''s'' then butlast s else s)"

text \<open>\<^verbatim>\<open>s.split(d)\<close> for a one-character separator: never an empty list.\<close>

fun split_on :: "char \<Rightarrow> string \<Rightarrow> string list" where
  "split_on d [] = [[]]"
| "split_on d (c # cs) =
     (let r = split_on d cs in if c = d then [] # r else (c # hd r) # tl r)"

text \<open>\<^verbatim>\<open>s.padStart(n, '0')\<close>\<close>

definition padStart :: "nat \<Rightarrow> string \<Rightarrow> string" where
  "padStart n s = replicate (n - length s) CHR ''0'' @ s"

text \<open>
  The white space that \<^verbatim>\<open>parseInt\<close> skips, among the code units below 256: tab, line feed,
  vertical tab, form feed, carriage return, space and no-break space.
\<close>

definition is_space :: "char \<Rightarrow> bool" where
  "is_space c = (of_char c \<in> {9, 10, 11, 12, 13, 32, 160 :: nat})"

text \<open>The value of a digit or letter as a digit, whatever the radix.\<close>

definition digit_val :: "char \<Rightarrow> nat option" where
  "digit_val c =
     (let n = of_char c :: nat in
      if 48 \<le> n \<and> n \<le> 57 then Some (n - 48)
      else if 97 \<le> n \<and> n \<le> 122 then Some (n - 87)
      else if 65 \<le> n \<and> n \<le> 90 then Some (n - 55)
      else None)"

definition is_digit :: "nat \<Rightarrow> char \<Rightarrow> bool" where
  "is_digit R c = (case digit_val c of Some d \<Rightarrow> d < R | None \<Rightarrow> False)"

definition digits_value :: "nat \<Rightarrow> string \<Rightarrow> nat" where
  "digits_value R z = foldl (\<lambda>a c. a * R + (case digit_val c of Some d \<Rightarrow> d | None \<Rightarrow> 0)) 0 z"

text \<open>
  \<^verbatim>\<open>parseInt(str)\<close> with no radix: leading white space is skipped, a sign is read, a prefix
  \<^verbatim>\<open>0x\<close> or \<^verbatim>\<open>0X\<close> selects radix 16, and the longest run of digits is the value; no digit at
  all gives \<open>NaN\<close>, and a zero after a minus sign is negative zero.
\<close>

definition parseInt :: "string \<Rightarrow> jsnum" where
  "parseInt str =
     (let s = dropWhile is_space str;
          neg = (s \<noteq> [] \<and> hd s = CHR ''-'');
          s1 = (if s \<noteq> [] \<and> (hd s = CHR ''+'' \<or> hd s = CHR ''-'') then tl s else s);
          hex = (take 2 s1 = ''0x'' \<or> take 2 s1 = ''0X'');
          R = (if hex then 16 else 10);
          s2 = (if hex then drop 2 s1 else s1);
          z = takeWhile (is_digit R) s2
      in if z = [] then NaN
         else fin ((if neg then - 1 else 1) * of_nat (digits_value R z)) neg)"

subsection \<open>Values of the parsed document\<close>

text \<open>
  A value of the program: what the XML parser returns and what a property read can give.
  An object is the list of its own properties in the order \<^verbatim>\<open>for ... in\<close> visits them, one
  entry for each property.
\<close>

datatype jsval =
    JUndefined
  | JNull
  | JBool bool
  | JNum jsnum
  | JStr string
  | JArr "jsval list"
  | JObj "(string \<times> jsval) list"

section \<open>Rational times\<close>

text \<open>
  \<^verbatim>\<open>convertRationalNumber\<close> of \<^verbatim>\<open>src/index.js\<close>. Anything but a non-empty string is replaced
  by the empty string. \<^verbatim>\<open>split\<close> always returns an array, so of the three tests of the guard
  only the length decides.
\<close>

definition convertRationalNumber :: "jsval \<Rightarrow> jsnum" where
  "convertRationalNumber v =
     (let rationalNumberString = (case v of JStr s \<Rightarrow> s | _ \<Rightarrow> '''');
          rationalParts = split_on CHR ''/'' (strip_s rationalNumberString)
      in if length rationalParts \<noteq> 2 then Fin 0
         else js_div (parseInt (rationalParts ! 0)) (parseInt (rationalParts ! 1)))"

text \<open>
  \<^verbatim>\<open>convertRationalNumber\<close> of \<^verbatim>\<open>src/unnamed/part_000\<close>: the guard no longer tests the length,
  so it never fires; one part is parsed as a number of seconds, and with two parts or more
  the first two are divided.
\<close>

definition convertRationalNumber_permissive :: "jsval \<Rightarrow> jsnum" where
  "convertRationalNumber_permissive v =
     (let rationalNumberString = (case v of JStr s \<Rightarrow> s | _ \<Rightarrow> '''');
          rationalParts = split_on CHR ''/'' (strip_s rationalNumberString)
      in if length rationalParts = 1 then parseInt (rationalParts ! 0)
         else js_div (parseInt (rationalParts ! 0)) (parseInt (rationalParts ! 1)))"

section \<open>The resolver\<close>

text \<open>A chapter marker as the collector records it; a missing attribute is \<open>JUndefined\<close>.\<close>

record chapterMarkerRecord =
  name :: jsval
  start :: jsval
  assetOffset :: jsval
  assetStart :: jsval

text \<open>
  \<^verbatim>\<open>calculateChapterTime\<close>, the same text in both files, over the file's own
  \<^verbatim>\<open>convertRationalNumber\<close> (\<open>conv\<close>). \<open>None\<close> is the \<^verbatim>\<open>null\<close> it returns.
\<close>

definition calculateChapterTime_with :: "(jsval \<Rightarrow> jsnum) \<Rightarrow> chapterMarkerRecord \<Rightarrow> string option" where
  "calculateChapterTime_with conv chapter =
     (let chapterStart = conv (start chapter);
          assetStart' = conv (assetStart chapter);
          assetOffset' = conv (assetOffset chapter)
      in if js_lt chapterStart assetStart' then None
         else
           let chapterOffset = js_floor (js_add (js_sub chapterStart assetStart') assetOffset');
               seconds = js_rem chapterOffset (Fin 60);
               minutes = js_rem (js_div (js_sub chapterOffset seconds) (Fin 60)) (Fin 60);
               hours = js_div (js_sub (js_sub chapterOffset seconds) (js_mul minutes (Fin 60)))
                         (Fin 3600)
           in Some (padStart 2 (js_toString hours) @ '':'' @ padStart 2 (js_toString minutes)
                    @ '':'' @ padStart 2 (js_toString seconds)))"

definition calculateChapterTime :: "chapterMarkerRecord \<Rightarrow> string option" where
  "calculateChapterTime = calculateChapterTime_with convertRationalNumber"

definition calculateChapterTime_permissive :: "chapterMarkerRecord \<Rightarrow> string option" where
  "calculateChapterTime_permissive = calculateChapterTime_with convertRationalNumber_permissive"

section \<open>The output\<close>

text \<open>
  \<^verbatim>\<open>${v}\<close>: the text of a value in a template literal. An array prints its elements joined by
  commas, \<^verbatim>\<open>null\<close> and \<^verbatim>\<open>undefined\<close> among them as nothing; an object prints as
  \<^verbatim>\<open>[object Object]\<close>.
\<close>

fun join_comma :: "string list \<Rightarrow> string" where
  "join_comma [] = []"
| "join_comma [s] = s"
| "join_comma (s # t # ts) = s @ '','' @ join_comma (t # ts)"

fun js_text :: "jsval \<Rightarrow> string" where
  "js_text JUndefined = ''undefined''"
| "js_text JNull = ''null''"
| "js_text (JBool b) = (if b then ''true'' else ''false'')"
| "js_text (JNum x) = js_toString x"
| "js_text (JStr s) = s"
| "js_text (JArr xs) =
     join_comma (map (\<lambda>v. if v = JNull \<or> v = JUndefined then [] else js_text v) xs)"
| "js_text (JObj ps) = ''[object Object]''"

text \<open>
  \<^verbatim>\<open>chapters.forEach\<close> of lines 110 to 117: a chapter whose time is \<^verbatim>\<open>null\<close> (or the empty
  string) is skipped, any other pushes the line \<^verbatim>\<open>`${time} ${chapter.name}`\<close>.
\<close>

fun push_times :: "(chapterMarkerRecord \<Rightarrow> string option) \<Rightarrow> chapterMarkerRecord list \<Rightarrow> string list \<Rightarrow> string list" where
  "push_times calc [] outputTimes = outputTimes"
| "push_times calc (chapter # chapters) outputTimes =
     (case calc chapter of
        None \<Rightarrow> push_times calc chapters outputTimes
      | Some chapterTime \<Rightarrow>
          if chapterTime = [] then push_times calc chapters outputTimes
          else push_times calc chapters
                 (outputTimes @ [chapterTime @ '' '' @ js_text (name chapter)]))"

text \<open>
  The lines written to standard output, in order: \<^verbatim>\<open>outputTimes.sort()\<close> compares strings code
  unit by code unit, which is the lexicographic order of \<^typ>\<open>string\<close>.
\<close>

definition outputTimes_with :: "(chapterMarkerRecord \<Rightarrow> string option) \<Rightarrow> chapterMarkerRecord list \<Rightarrow> string list" where
  "outputTimes_with calc chapters = sort (push_times calc chapters [])"

definition outputTimes :: "chapterMarkerRecord list \<Rightarrow> string list" where
  "outputTimes = outputTimes_with calculateChapterTime"

definition outputTimes_permissive :: "chapterMarkerRecord list \<Rightarrow> string list" where
  "outputTimes_permissive = outputTimes_with calculateChapterTime_permissive"

section \<open>The collector\<close>

datatype error = TypeError

text \<open>
  \<^verbatim>\<open>v[k]\<close> for the keys the program reads (\<^verbatim>\<open>@_value\<close>, \<^verbatim>\<open>@_start\<close>, \<^verbatim>\<open>@_offset\<close>,
  \<^verbatim>\<open>chapter-marker\<close>), none of which a string, a number, a boolean or an array has: reading
  from \<^verbatim>\<open>null\<close> or \<^verbatim>\<open>undefined\<close> raises, a missing property is \<^verbatim>\<open>undefined\<close>.
\<close>

definition get_prop :: "jsval \<Rightarrow> string \<Rightarrow> error + jsval" where
  "get_prop v k =
     (case v of
        JUndefined \<Rightarrow> Inl TypeError
      | JNull \<Rightarrow> Inl TypeError
      | JObj ps \<Rightarrow> Inr (case map_of ps k of Some x \<Rightarrow> x | None \<Rightarrow> JUndefined)
      | _ \<Rightarrow> Inr JUndefined)"

text \<open>
  \<^verbatim>\<open>v.hasOwnProperty(k)\<close> for the key \<^verbatim>\<open>chapter-marker\<close>. An object that has a property
  \<^verbatim>\<open>hasOwnProperty\<close> of its own hides the method, and calling what the parser put there
  raises.
\<close>

definition has_own :: "jsval \<Rightarrow> string \<Rightarrow> error + bool" where
  "has_own v k =
     (case v of
        JUndefined \<Rightarrow> Inl TypeError
      | JNull \<Rightarrow> Inl TypeError
      | JObj ps \<Rightarrow>
          (if map_of ps ''hasOwnProperty'' \<noteq> None then Inl TypeError
           else Inr (map_of ps k \<noteq> None))
      | _ \<Rightarrow> Inr False)"

text \<open>
  One \<^verbatim>\<open>chapters.push({...})\<close>: the marker's own name and start, the enclosing node's offset
  and start. The properties are read in the order of the object literal. An uncaught
  exception ends the script before anything is printed, so an error carries no list.
\<close>

definition push_marker :: "jsval \<Rightarrow> jsval \<Rightarrow> chapterMarkerRecord list \<Rightarrow> error + chapterMarkerRecord list" where
  "push_marker obj chapterMarker chapters =
     (case get_prop chapterMarker ''@_value'' of
        Inl e \<Rightarrow> Inl e
      | Inr n \<Rightarrow>
          (case get_prop chapterMarker ''@_start'' of
             Inl e \<Rightarrow> Inl e
           | Inr s \<Rightarrow>
               (case get_prop obj ''@_offset'' of
                  Inl e \<Rightarrow> Inl e
                | Inr off \<Rightarrow>
                    (case get_prop obj ''@_start'' of
                       Inl e \<Rightarrow> Inl e
                     | Inr st \<Rightarrow>
                         Inr (chapters @
                              [\<lparr>name = n, start = s, assetOffset = off, assetStart = st\<rparr>])))))"

text \<open>\<^verbatim>\<open>obj['chapter-marker'].forEach\<close>\<close>

fun push_markers :: "jsval \<Rightarrow> jsval list \<Rightarrow> chapterMarkerRecord list \<Rightarrow> error + chapterMarkerRecord list" where
  "push_markers obj [] chapters = Inr chapters"
| "push_markers obj (chapterMarker # rest) chapters =
     (case push_marker obj chapterMarker chapters of
        Inl e \<Rightarrow> Inl e
      | Inr chapters' \<Rightarrow> push_markers obj rest chapters')"

text \<open>
  The test for a \<^verbatim>\<open>chapter-marker\<close> child and its two branches, as in lines 74 to 92 of
  \<^verbatim>\<open>src/unnamed/part_000\<close> and lines 83 to 106 of \<^verbatim>\<open>src/index.js\<close>.
\<close>

definition node_markers :: "jsval \<Rightarrow> chapterMarkerRecord list \<Rightarrow> error + chapterMarkerRecord list" where
  "node_markers obj chapters =
     (case has_own obj ''chapter-marker'' of
        Inl e \<Rightarrow> Inl e
      | Inr False \<Rightarrow> Inr chapters
      | Inr True \<Rightarrow>
          (case get_prop obj ''chapter-marker'' of
             Inl e \<Rightarrow> Inl e
           | Inr (JArr ms) \<Rightarrow> push_markers obj ms chapters
           | Inr m \<Rightarrow> push_marker obj m chapters))"

text \<open>\<^verbatim>\<open>typeof v === 'object'\<close>, which holds of \<^verbatim>\<open>null\<close> too.\<close>

definition is_object :: "jsval \<Rightarrow> bool" where
  "is_object v = (case v of JNull \<Rightarrow> True | JArr xs \<Rightarrow> True | JObj ps \<Rightarrow> True | _ \<Rightarrow> False)"

text \<open>The values \<^verbatim>\<open>for (let key in obj)\<close> reads, in order: an array's elements, an object's
  property values.\<close>

definition children :: "jsval \<Rightarrow> jsval list" where
  "children v = (case v of JArr xs \<Rightarrow> xs | JObj ps \<Rightarrow> map snd ps | _ \<Rightarrow> [])"

lemma size_props: "size_list size (map snd ps) \<le> size_list (size_prod (\<lambda>x. 0) size) ps"
  by (induction ps) auto

lemma size_children: "size_list size (children v) \<le> size v"
proof (cases v)
  case (JObj ps)
  then show ?thesis
    using size_props [of ps] by (simp add: children_def del: size_list_map)
qed (simp_all add: children_def)

text \<open>
  \<^verbatim>\<open>findChapterMarkers\<close> of \<^verbatim>\<open>src/unnamed/part_000\<close>, the global list \<^verbatim>\<open>chapters\<close> passed
  through; \<open>walk\<close> is its \<^verbatim>\<open>for ... in\<close> loop.
\<close>

function findChapterMarkers :: "jsval \<Rightarrow> chapterMarkerRecord list \<Rightarrow> error + chapterMarkerRecord list"
  and walk :: "jsval list \<Rightarrow> chapterMarkerRecord list \<Rightarrow> error + chapterMarkerRecord list" where
  "findChapterMarkers obj chapters =
     (if \<not> is_object obj \<or> obj = JNull then Inr chapters
      else case node_markers obj chapters of
             Inl e \<Rightarrow> Inl e
           | Inr chapters' \<Rightarrow> walk (children obj) chapters')"
| "walk [] chapters = Inr chapters"
| "walk (v # vs) chapters =
     (if is_object v
      then case findChapterMarkers v chapters of
             Inl e \<Rightarrow> Inl e
           | Inr chapters' \<Rightarrow> walk vs chapters'
      else walk vs chapters)"
  by pat_completeness auto
termination
proof (relation "measure (\<lambda>x. case x of Inl (v, _) \<Rightarrow> 2 * size v + 1
                                     | Inr (vs, _) \<Rightarrow> 2 * size_list size vs)", goal_cases)
  case (2 obj chapters x2)
  then show ?case
    using size_children [of obj] by simp
qed simp_all

declare findChapterMarkers.simps [simp del]

text \<open>The script of \<^verbatim>\<open>src/unnamed/part_000\<close> from the parsed document to the lines it prints.\<close>

definition part_000 :: "jsval \<Rightarrow> error + string list" where
  "part_000 json =
     (case findChapterMarkers json [] of
        Inl e \<Rightarrow> Inl e
      | Inr chapters \<Rightarrow> Inr (outputTimes_permissive chapters))"

subsection \<open>The fixed path of \<^verbatim>\<open>src/index.js\<close>\<close>

text \<open>
  \<^verbatim>\<open>get(json, path)\<close> of lodash before the default is applied, the path split at its dots and
  brackets into keys: the value at the end of the path, \<^verbatim>\<open>undefined\<close> as soon as a step
  starts from \<^verbatim>\<open>null\<close>, \<^verbatim>\<open>undefined\<close> or a value without the property.
\<close>

fun get_path :: "jsval \<Rightarrow> string list \<Rightarrow> jsval" where
  "get_path v [] = v"
| "get_path v (k # ks) =
     (case v of
        JObj ps \<Rightarrow> (case map_of ps k of Some x \<Rightarrow> get_path x ks | None \<Rightarrow> JUndefined)
      | _ \<Rightarrow> JUndefined)"

text \<open>\<^verbatim>\<open>if (v)\<close>\<close>

definition truthy :: "jsval \<Rightarrow> bool" where
  "truthy v =
     (case v of
        JUndefined \<Rightarrow> False
      | JNull \<Rightarrow> False
      | JBool b \<Rightarrow> b
      | JNum x \<Rightarrow> \<not> (is_zero x \<or> x = NaN)
      | JStr s \<Rightarrow> s \<noteq> []
      | _ \<Rightarrow> True)"

text \<open>\<^verbatim>\<open>[...v]\<close>: an array gives its elements and a string its characters; nothing else that
  can reach the spread is iterable.\<close>

definition spread :: "jsval \<Rightarrow> error + jsval list" where
  "spread v =
     (case v of
        JArr xs \<Rightarrow> Inr xs
      | JStr s \<Rightarrow> Inr (map (\<lambda>c. JStr [c]) s)
      | _ \<Rightarrow> Inl TypeError)"

text \<open>
  Lines 73 to 80: the clips under \<^verbatim>\<open>fcpxml.library.event.project.sequence.spine\<close> with the
  given element name, \<^verbatim>\<open>[]\<close> when there is none, a single clip wrapped into an array.
\<close>

definition get_clips :: "jsval \<Rightarrow> string \<Rightarrow> jsval" where
  "get_clips json key =
     (let v = get_path json
                [''fcpxml'', ''library'', ''event'', ''project'', ''sequence'', ''spine'', key];
          clips = (if v = JUndefined then JArr [] else v)
      in if truthy clips \<and> (case clips of JArr xs \<Rightarrow> False | _ \<Rightarrow> True)
         then JArr [clips] else clips)"

text \<open>\<^verbatim>\<open>clips.forEach\<close> of lines 82 to 107.\<close>

fun forEach_clips :: "jsval list \<Rightarrow> chapterMarkerRecord list \<Rightarrow> error + chapterMarkerRecord list" where
  "forEach_clips [] chapters = Inr chapters"
| "forEach_clips (clip # clips) chapters =
     (case node_markers clip chapters of
        Inl e \<Rightarrow> Inl e
      | Inr chapters' \<Rightarrow> forEach_clips clips chapters')"

text \<open>The chapters that lines 71 to 107 of \<^verbatim>\<open>src/index.js\<close> collect.\<close>

definition clips_chapters :: "jsval \<Rightarrow> error + chapterMarkerRecord list" where
  "clips_chapters json =
     (case spread (get_clips json ''asset-clip'') of
        Inl e \<Rightarrow> Inl e
      | Inr assetClips \<Rightarrow>
          (case spread (get_clips json ''ref-clip'') of
             Inl e \<Rightarrow> Inl e
           | Inr refClips \<Rightarrow> forEach_clips (assetClips @ refClips) []))"

text \<open>The script of \<^verbatim>\<open>src/index.js\<close> from the parsed document to the lines it prints.\<close>

definition index_js :: "jsval \<Rightarrow> error + string list" where
  "index_js json =
     (case clips_chapters json of
        Inl e \<Rightarrow> Inl e
      | Inr chapters \<Rightarrow> Inr (outputTimes chapters))"

section \<open>Notions of the specification\<close>

text \<open>A decimal integer as the specification writes it: digits, with an optional minus sign.\<close>

definition all_digits :: "string \<Rightarrow> bool" where
  "all_digits s = (s \<noteq> [] \<and> list_all (is_digit 10) s)"

definition read_nat :: "string \<Rightarrow> nat option" where
  "read_nat s = (if all_digits s then Some (digits_value 10 s) else None)"

definition read_int :: "string \<Rightarrow> int option" where
  "read_int s =
     (case s of
        [] \<Rightarrow> None
      | c # ds \<Rightarrow> if c = CHR ''-'' then map_option (\<lambda>n. - int n) (read_nat ds)
                  else map_option int (read_nat s))"

text \<open>
  Section 4.3, step 4 of the specification, on integers: \<open>mod\<close> is the mathematical
  remainder, which is never negative for a positive modulus.
\<close>

definition hms_of :: "int \<Rightarrow> int \<times> int \<times> int" where
  "hms_of offsetSeconds =
     (let seconds = offsetSeconds mod 60;
          minutes = ((offsetSeconds - seconds) div 60) mod 60;
          hours = (offsetSeconds - seconds - minutes * 60) div 3600
      in (hours, minutes, seconds))"

text \<open>Step 5: a component zero-padded to at least two digits.\<close>

definition two_digits :: "int \<Rightarrow> string" where
  "two_digits k = (if 0 \<le> k \<and> k < 10 then CHR ''0'' # int_text k else int_text k)"

definition hms_text :: "int \<Rightarrow> string" where
  "hms_text offsetSeconds =
     (case hms_of offsetSeconds of
        (hours, minutes, seconds) \<Rightarrow>
          two_digits hours @ '':'' @ two_digits minutes @ '':'' @ two_digits seconds)"


text \<open>
  The numbers \<^verbatim>\<open>hours\<close>, \<^verbatim>\<open>minutes\<close> and \<^verbatim>\<open>seconds\<close> of lines 58 to 61, which
  \<^verbatim>\<open>calculateChapterTime\<close> prints (\<open>calculateChapterTime_with_numbers\<close>).
\<close>

definition resolver_numbers :: "(jsval \<Rightarrow> jsnum) \<Rightarrow> chapterMarkerRecord \<Rightarrow> jsnum \<times> jsnum \<times> jsnum" where
  "resolver_numbers conv chapter =
     (let chapterOffset = js_floor (js_add (js_sub (conv (start chapter)) (conv (assetStart chapter)))
                                     (conv (assetOffset chapter)));
          seconds = js_rem chapterOffset (Fin 60);
          minutes = js_rem (js_div (js_sub chapterOffset seconds) (Fin 60)) (Fin 60);
          hours = js_div (js_sub (js_sub chapterOffset seconds) (js_mul minutes (Fin 60)))
                    (Fin 3600)
      in (hours, minutes, seconds))"

text \<open>A valid marker is one whose time is a string; its line is that time, a space and the
  text of its name.\<close>

definition valid_marker :: "(chapterMarkerRecord \<Rightarrow> string option) \<Rightarrow> chapterMarkerRecord \<Rightarrow> bool" where
  "valid_marker calc c = (case calc c of None \<Rightarrow> False | Some t \<Rightarrow> t \<noteq> [])"

definition output_line :: "(chapterMarkerRecord \<Rightarrow> string option) \<Rightarrow> chapterMarkerRecord \<Rightarrow> string" where
  "output_line calc c = (case calc c of None \<Rightarrow> [] | Some t \<Rightarrow> t @ '' '' @ js_text (name c))"

text \<open>A non-negative number: \<^verbatim>\<open>x >= 0\<close>, which \<open>NaN\<close> is not.\<close>

definition non_negative :: "jsnum \<Rightarrow> bool" where
  "non_negative x = (x \<noteq> NaN \<and> \<not> js_lt x (Fin 0))"












text \<open>
  Two documents. In the first a clip with two markers (a sequence) and a clip with one marker
  (a single object) lie side by side in the spine; in the second the clip with one marker
  lies inside the other clip, two levels further down.
\<close>

definition two_markers :: "jsval" where
  "two_markers =
     JArr [JObj [(''@_start'', JStr ''10/1s''), (''@_value'', JStr ''Intro'')],
           JObj [(''@_start'', JStr ''60/1s''), (''@_value'', JStr ''Middle'')]]"

definition one_marker_clip :: "jsval" where
  "one_marker_clip =
     JObj [(''@_offset'', JStr ''100/1s''), (''@_start'', JStr ''5/1s''),
           (''chapter-marker'', JObj [(''@_start'', JStr ''20/1s''), (''@_value'', JStr ''End'')])]"

definition document :: "jsval \<Rightarrow> jsval" where
  "document spine =
     JObj [(''fcpxml'', JObj [(''library'', JObj [(''event'', JObj [(''project'',
       JObj [(''sequence'', JObj [(''spine'', spine)])])])])])]"

definition flat_document :: "jsval" where
  "flat_document =
     document (JObj [(''asset-clip'',
                       JObj [(''@_offset'', JStr ''0/1s''), (''@_start'', JStr ''0/1s''),
                             (''chapter-marker'', two_markers)]),
                     (''ref-clip'', one_marker_clip)])"

definition nested_document :: "jsval" where
  "nested_document =
     document (JObj [(''asset-clip'',
                       JObj [(''@_offset'', JStr ''0/1s''), (''@_start'', JStr ''0/1s''),
                             (''chapter-marker'', two_markers),
                             (''spine'', JObj [(''ref-clip'', one_marker_clip)])])])"

text \<open>The three records of the two documents.\<close>

definition three_records :: "chapterMarkerRecord list" where
  "three_records =
     [\<lparr>name = JStr ''Intro'', start = JStr ''10/1s'', assetOffset = JStr ''0/1s'',
        assetStart = JStr ''0/1s''\<rparr>,
      \<lparr>name = JStr ''Middle'', start = JStr ''60/1s'', assetOffset = JStr ''0/1s'',
        assetStart = JStr ''0/1s''\<rparr>,
      \<lparr>name = JStr ''End'', start = JStr ''20/1s'', assetOffset = JStr ''100/1s'',
        assetStart = JStr ''5/1s''\<rparr>]"

section \<open>Strings: splitting, stripping and parsing\<close>

lemma split_on_not_Nil [simp]: "split_on d s \<noteq> []"
  by (induction s) (auto simp: Let_def)

lemma split_on_no_sep: "d \<notin> set a \<Longrightarrow> split_on d a = [a]"
  by (induction a) (auto simp: Let_def)

lemma split_on_append: "d \<notin> set a \<Longrightarrow> split_on d (a @ d # b) = a # split_on d b"
  by (induction a) (auto simp: Let_def)

lemma strip_s_snoc: "strip_s (x @ ''s'') = x"
  by (simp add: strip_s_def)

lemma strip_s_id: "s \<noteq> [] \<Longrightarrow> last s \<noteq> CHR ''s'' \<Longrightarrow> strip_s s = s"
  by (simp add: strip_s_def)

lemma is_digit_10_iff: "is_digit 10 c \<longleftrightarrow> 48 \<le> (of_char c :: nat) \<and> (of_char c :: nat) \<le> 57"
  by (auto simp: is_digit_def digit_val_def Let_def)

lemma digit_not_special:
  assumes "is_digit 10 c"
  shows "c \<noteq> CHR ''/''" "c \<noteq> CHR ''s''" "c \<noteq> CHR ''-''" "c \<noteq> CHR ''+''" "c \<noteq> CHR '':''"
    "c \<noteq> CHR ''x''" "c \<noteq> CHR ''X''" "\<not> is_space c"
  using assms by (auto simp: is_digit_10_iff is_space_def)

lemma all_digitsD: "all_digits s \<Longrightarrow> c \<in> set s \<Longrightarrow> is_digit 10 c"
  by (auto simp: all_digits_def list_all_iff)

lemma all_digits_Cons: "all_digits s \<Longrightarrow> \<exists>c cs. s = c # cs \<and> is_digit 10 c \<and> list_all (is_digit 10) cs"
  by (cases s) (auto simp: all_digits_def)

lemma takeWhile_all: "list_all P xs \<Longrightarrow> takeWhile P xs = xs"
  by (induction xs) auto

lemma not_hex_prefix:
  assumes "all_digits s"
  shows "take 2 s \<noteq> ''0x''" "take 2 s \<noteq> ''0X''"
proof -
  obtain c cs where s: "s = c # cs" and cs: "list_all (is_digit 10) cs"
    using all_digits_Cons [OF assms] by blast
  show "take 2 s \<noteq> ''0x''" "take 2 s \<noteq> ''0X''"
    using cs digit_not_special(6,7) by (cases cs; auto simp: s)+
qed

lemma parseInt_digits:
  assumes "all_digits s"
  shows "parseInt s = Fin (of_nat (digits_value 10 s))"
proof -
  obtain c cs where s: "s = c # cs" and c: "is_digit 10 c" and cs: "list_all (is_digit 10) cs"
    using all_digits_Cons [OF assms] by blast
  have 1: "dropWhile is_space s = s"
    using digit_not_special(8) [OF c] by (simp add: s)
  have 2: "hd s \<noteq> CHR ''-''" "hd s \<noteq> CHR ''+''"
    using digit_not_special(3,4) [OF c] by (simp_all add: s)
  have 3: "takeWhile (is_digit 10) s = s"
    using c cs by (simp add: s takeWhile_all)
  have 4: "s \<noteq> []" by (simp add: s)
  show ?thesis
    using not_hex_prefix [OF assms] 2 4
    by (simp add: parseInt_def Let_def fin_def zero_of_def 1 3)
qed

lemma parseInt_minus_digits:
  assumes "all_digits s"
  shows "parseInt (CHR ''-'' # s) = fin (- of_nat (digits_value 10 s)) True"
proof -
  have 1: "\<not> is_space CHR ''-''"
    by (simp add: is_space_def)
  have 3: "takeWhile (is_digit 10) s = s"
    using assms by (simp add: all_digits_def takeWhile_all)
  have 4: "s \<noteq> []" using assms by (simp add: all_digits_def)
  show ?thesis
    using not_hex_prefix [OF assms] 4
    by (simp add: parseInt_def Let_def 1 3)
qed

lemma read_int_cases:
  assumes "read_int a = Some n"
  obtains (pos) "all_digits a" "n = int (digits_value 10 a)"
  | (neg) ds where "a = CHR ''-'' # ds" "all_digits ds" "n = - int (digits_value 10 ds)"
  using assms by (cases a) (auto simp: read_int_def read_nat_def split: if_splits)

text \<open>An integer literal parses to the integer it denotes; a negative zero keeps its sign.\<close>

lemma parseInt_read_int:
  assumes "read_int a = Some n"
  shows "parseInt a = fin (of_int n) (hd a = CHR ''-'')"
  using assms
proof (cases rule: read_int_cases)
  case pos
  then obtain c cs where "a = c # cs" "is_digit 10 c"
    using all_digits_Cons by blast
  then have "hd a \<noteq> CHR ''-''" using digit_not_special(3) by auto
  then show ?thesis using pos parseInt_digits [of a] by (simp add: fin_def zero_of_def)
next
  case (neg ds)
  then show ?thesis using parseInt_minus_digits [of ds] by simp
qed

lemma read_int_no_slash: "read_int a = Some n \<Longrightarrow> CHR ''/'' \<notin> set a"
  by (erule read_int_cases) (auto dest: all_digitsD digit_not_special(1))

lemma read_int_last: "read_int a = Some n \<Longrightarrow> a \<noteq> [] \<and> last a \<noteq> CHR ''s''"
  apply (erule read_int_cases) 
  apply (metis all_digitsD all_digits_def digit_not_special(2) last_in_set)
  by (metis all_digitsD all_digits_def digit_not_special(2) last_in_set last_ConsR list.discI)

lemma parts_of_two:
  assumes "read_int a = Some n" "read_int b = Some d"
  shows "split_on CHR ''/'' (strip_s (a @ ''/'' @ b)) = [a, b]"
    and "split_on CHR ''/'' (strip_s (a @ ''/'' @ b @ ''s'')) = [a, b]"
proof -
  have a: "CHR ''/'' \<notin> set a" and b: "CHR ''/'' \<notin> set b"
    using assms read_int_no_slash by blast+
  have split: "split_on CHR ''/'' (a @ ''/'' @ b) = [a, b]"
    using split_on_append [OF a, of b] split_on_no_sep [OF b] by simp
  have "strip_s (a @ ''/'' @ b) = a @ ''/'' @ b"
    using read_int_last [OF assms(2)] by (intro strip_s_id) auto
  then show "split_on CHR ''/'' (strip_s (a @ ''/'' @ b)) = [a, b]"
    using split by simp
  have "strip_s (a @ ''/'' @ b @ ''s'') = a @ ''/'' @ b"
    using strip_s_snoc [of "a @ ''/'' @ b"] by simp
  then show "split_on CHR ''/'' (strip_s (a @ ''/'' @ b @ ''s'')) = [a, b]"
    using split by simp
qed

lemma parts_of_one:
  assumes "read_int a = Some n"
  shows "split_on CHR ''/'' (strip_s a) = [a]"
    and "split_on CHR ''/'' (strip_s (a @ ''s'')) = [a]"
proof -
  have a: "CHR ''/'' \<notin> set a"
    using assms read_int_no_slash by blast
  have "strip_s a = a"
    using read_int_last [OF assms] by (intro strip_s_id) auto
  then show "split_on CHR ''/'' (strip_s a) = [a]"
    using split_on_no_sep [OF a] by simp
  show "split_on CHR ''/'' (strip_s (a @ ''s'')) = [a]"
    using split_on_no_sep [OF a] by (simp add: strip_s_snoc)
qed

lemma val_fin [simp]: "val (fin r s) = r"
  by (simp add: val_def fin_def zero_of_def)

lemma is_finite_fin [simp]: "is_finite (fin r s)"
  by (simp add: is_finite_def fin_def zero_of_def)

lemma fin_not_special [simp]: "fin r s \<noteq> NaN" "fin r s \<noteq> PInf" "fin r s \<noteq> NInf"
  "\<not> is_inf (fin r s)"
  by (simp_all add: fin_def zero_of_def is_inf_def)

lemma is_zero_fin [simp]: "is_zero (fin r s) \<longleftrightarrow> r = 0"
  by (simp add: fin_def zero_of_def is_zero_def)

lemma js_div_fin:
  "js_div (fin p s) (fin q t) =
     (if q = 0 then (if p = 0 then NaN else inf_of (negative (fin p s) \<noteq> negative (fin q t)))
      else fin (p / q) (negative (fin p s) \<noteq> negative (fin q t)))"
  by (simp add: js_div_def Let_def)

lemma read_nat_value: "read_nat ''7500'' = Some 7500" "read_nat ''100'' = Some 100"
  by (simp_all add: read_nat_def all_digits_def is_digit_def digit_val_def digits_value_def)

section \<open>Claims about the conversion of rational times\<close>

lemma convert_two_parts:
  assumes "read_int a = Some n" "read_int b = Some d"
  shows "convertRationalNumber (JStr (a @ ''/'' @ b)) = js_div (parseInt a) (parseInt b)"
    and "convertRationalNumber (JStr (a @ ''/'' @ b @ ''s'')) = js_div (parseInt a) (parseInt b)"
    and "convertRationalNumber_permissive (JStr (a @ ''/'' @ b)) = js_div (parseInt a) (parseInt b)"
    and "convertRationalNumber_permissive (JStr (a @ ''/'' @ b @ ''s'')) =
           js_div (parseInt a) (parseInt b)"
  using parts_of_two [OF assms]
  by (simp_all add: convertRationalNumber_def convertRationalNumber_permissive_def Let_def)

lemma convert_one_part:
  assumes "read_int a = Some n"
  shows "convertRationalNumber_permissive (JStr a) = parseInt a"
    and "convertRationalNumber_permissive (JStr (a @ ''s'')) = parseInt a"
    and "convertRationalNumber (JStr a) = Fin 0"
    and "convertRationalNumber (JStr (a @ ''s'')) = Fin 0"
  using parts_of_one [OF assms]
  by (simp_all add: convertRationalNumber_def convertRationalNumber_permissive_def Let_def)

lemma quotient_of_literals:
  assumes "read_int a = Some n" "read_int b = Some d" "d \<noteq> 0"
  shows "js_div (parseInt a) (parseInt b) =
           fin (of_int n / of_int d) (negative (parseInt a) \<noteq> negative (parseInt b))"
  using assms by (simp add: parseInt_read_int js_div_fin)

lemma read_int_value: "read_int ''7500'' = Some 7500" "read_int ''100'' = Some 100"
  by (simp_all add: read_int_def read_nat_value)

text \<open>
  C2. A string \<^verbatim>\<open><integer>/<integer>\<close> with or without the final \<^verbatim>\<open>s\<close> converts, in both
  files, to the quotient of the two integers it is split into: each part parses to the
  integer it denotes, and with a denominator other than zero the result is the finite number
  \<open>n / d\<close>. \<^verbatim>\<open>7500/7500s\<close> converts to 1. In \<^verbatim>\<open>src/unnamed/part_000\<close> a single integer with
  or without \<^verbatim>\<open>s\<close> converts to that integer, and \<^verbatim>\<open>100s\<close> to 100.
\<close>

theorem convertRationalNumber_quotient:
  assumes "read_int a = Some n" and "read_int b = Some d"
  shows "convertRationalNumber (JStr (a @ ''/'' @ b)) = js_div (parseInt a) (parseInt b)
       \<and> convertRationalNumber (JStr (a @ ''/'' @ b @ ''s'')) = js_div (parseInt a) (parseInt b)
       \<and> convertRationalNumber_permissive (JStr (a @ ''/'' @ b)) = js_div (parseInt a) (parseInt b)
       \<and> convertRationalNumber_permissive (JStr (a @ ''/'' @ b @ ''s'')) =
           js_div (parseInt a) (parseInt b)
       \<and> is_finite (parseInt a) \<and> val (parseInt a) = of_int n
       \<and> is_finite (parseInt b) \<and> val (parseInt b) = of_int d
       \<and> (d \<noteq> 0 \<longrightarrow> is_finite (js_div (parseInt a) (parseInt b))
                   \<and> val (js_div (parseInt a) (parseInt b)) = of_int n / of_int d)
       \<and> convertRationalNumber_permissive (JStr a) = parseInt a
       \<and> convertRationalNumber_permissive (JStr (a @ ''s'')) = parseInt a
       \<and> convertRationalNumber (JStr ''7500/7500s'') = Fin 1
       \<and> convertRationalNumber_permissive (JStr ''7500/7500s'') = Fin 1
       \<and> convertRationalNumber_permissive (JStr ''100s'') = Fin 100"
proof -
  have parts: "is_finite (parseInt a)" "val (parseInt a) = of_int n"
    "is_finite (parseInt b)" "val (parseInt b) = of_int d"
    using assms by (simp_all add: parseInt_read_int)
  have quot: "d \<noteq> 0 \<longrightarrow> is_finite (js_div (parseInt a) (parseInt b))
                   \<and> val (js_div (parseInt a) (parseInt b)) = of_int n / of_int d"
    using quotient_of_literals [OF assms] by simp
  have p7500: "parseInt ''7500'' = Fin 7500" and p100: "parseInt ''100'' = Fin 100"
    using parseInt_read_int [OF read_int_value(1)] parseInt_read_int [OF read_int_value(2)]
    by (simp_all add: fin_def)
  have ex1: "convertRationalNumber (JStr ''7500/7500s'') = Fin 1"
    using convert_two_parts(2) [OF read_int_value(1) read_int_value(1)]
    by (simp add: p7500 js_div_def is_inf_def is_zero_def val_def fin_def)
  have ex2: "convertRationalNumber_permissive (JStr ''7500/7500s'') = Fin 1"
    using convert_two_parts(4) [OF read_int_value(1) read_int_value(1)]
    by (simp add: p7500 js_div_def is_inf_def is_zero_def val_def fin_def)
  have ex3: "convertRationalNumber_permissive (JStr ''100s'') = Fin 100"
    using convert_one_part(2) [OF read_int_value(2)] by (simp add: p100)
  show ?thesis
    using convert_two_parts [OF assms] convert_one_part(1,2) [OF assms(1)] parts quot ex1 ex2 ex3
    by simp
qed

lemma read_int_witness: "read_int ''-3'' = Some (- 3)" "read_int ''4'' = Some 4"
  by (simp_all add: read_int_def read_nat_def all_digits_def is_digit_def digit_val_def
      digits_value_def)

theorem convertRationalNumber_quotient_witness:
  "read_int ''-3'' = Some (- 3) \<and> read_int ''4'' = Some 4
   \<and> convertRationalNumber (JStr ''-3/4s'') = Fin (- 3 / 4)
   \<and> convertRationalNumber_permissive (JStr ''-3/4'') = Fin (- 3 / 4)
   \<and> convertRationalNumber_permissive (JStr ''-3s'') = Fin (- 3)"
proof -
  have p: "parseInt ''-3'' = Fin (- 3)" "parseInt ''4'' = Fin 4"
    using parseInt_read_int [OF read_int_witness(1)] parseInt_read_int [OF read_int_witness(2)]
    by (simp_all add: fin_def)
  have q: "js_div (Fin (- 3)) (Fin 4) = Fin (- 3 / 4)"
    by (simp add: js_div_def is_inf_def is_zero_def val_def fin_def)
  show ?thesis
    using convertRationalNumber_quotient [OF read_int_witness] read_int_witness
    by (simp add: p q)
qed

section \<open>Arithmetic of finite numbers\<close>

lemma is_finite_simps [simp]:
  "is_finite NZero" "is_finite (Fin r)" "\<not> is_finite NaN" "\<not> is_finite PInf" "\<not> is_finite NInf"
  by (simp_all add: is_finite_def)

lemma val_simps [simp]: "val NZero = 0" "val (Fin r) = r"
  by (simp_all add: val_def)

lemma is_finite_iff: "is_finite x \<longleftrightarrow> x = NZero \<or> (\<exists>r. x = Fin r)"
  by (cases x) simp_all

lemma finite_not_special:
  assumes "is_finite x"
  shows "x \<noteq> NaN" "x \<noteq> PInf" "x \<noteq> NInf" "\<not> is_inf x"
  using assms by (auto simp: is_finite_iff is_inf_def)

lemma is_zero_val: "is_finite x \<Longrightarrow> is_zero x \<longleftrightarrow> val x = 0"
  by (auto simp: is_finite_iff is_zero_def)

lemma js_neg_finite: "is_finite x \<Longrightarrow> is_finite (js_neg x) \<and> val (js_neg x) = - val x"
  by (cases x) (simp_all add: js_neg_def)

lemma js_add_finite:
  "is_finite x \<Longrightarrow> is_finite y \<Longrightarrow> is_finite (js_add x y) \<and> val (js_add x y) = val x + val y"
  by (simp add: js_add_def finite_not_special)

lemma js_sub_finite:
  "is_finite x \<Longrightarrow> is_finite y \<Longrightarrow> is_finite (js_sub x y) \<and> val (js_sub x y) = val x - val y"
  by (simp add: js_sub_def js_add_finite js_neg_finite)

lemma js_mul_finite:
  "is_finite x \<Longrightarrow> is_finite y \<Longrightarrow> is_finite (js_mul x y) \<and> val (js_mul x y) = val x * val y"
  by (simp add: js_mul_def Let_def finite_not_special)

lemma js_div_finite:
  "is_finite x \<Longrightarrow> is_finite y \<Longrightarrow> val y \<noteq> 0 \<Longrightarrow>
     is_finite (js_div x y) \<and> val (js_div x y) = val x / val y"
  by (simp add: js_div_def Let_def finite_not_special is_zero_val)

lemma js_floor_finite:
  "is_finite x \<Longrightarrow> is_finite (js_floor x) \<and> val (js_floor x) = of_int \<lfloor>val x\<rfloor>"
  by (cases x) (simp_all add: js_floor_def)

lemma js_rem_finite:
  "is_finite x \<Longrightarrow> is_finite y \<Longrightarrow> val y \<noteq> 0 \<Longrightarrow>
     is_finite (js_rem x y)
     \<and> val (js_rem x y) = val x - val y * of_int (trunc (val x / val y))"
  by (auto simp: js_rem_def finite_not_special is_zero_val trunc_def)

lemma js_lt_finite: "is_finite x \<Longrightarrow> is_finite y \<Longrightarrow> js_lt x y \<longleftrightarrow> val x < val y"
  by (simp add: js_lt_def finite_not_special)

lemma js_toString_int: "is_finite x \<Longrightarrow> val x = of_int n \<Longrightarrow> js_toString x = int_text n"
  by (cases x) (simp_all add: js_toString_def int_text_def nat_text.simps [of 0] digit_char_def)

text \<open>Whatever is not finite stays so, and ends as \<open>NaN\<close> in a remainder.\<close>

lemma NaN_propagates [simp]:
  "js_add NaN y = NaN" "js_add x NaN = NaN" "js_sub NaN y = NaN" "js_sub x NaN = NaN"
  "js_mul NaN y = NaN" "js_mul x NaN = NaN" "js_div NaN y = NaN" "js_div x NaN = NaN"
  "js_rem NaN y = NaN" "js_rem x NaN = NaN" "js_floor NaN = NaN"
  "\<not> js_lt NaN y" "\<not> js_lt x NaN"
  by (cases x; simp add: js_add_def js_sub_def js_mul_def js_div_def js_rem_def js_floor_def js_lt_def
      js_neg_def fin_def zero_of_def)+

lemma js_rem_not_finite: "\<not> is_finite x \<Longrightarrow> js_rem x y = NaN"
  by (cases x) (simp_all add: js_rem_def is_inf_def)

lemma js_floor_not_finite: "\<not> is_finite x \<Longrightarrow> js_floor x = x"
  by (cases x) (simp_all add: js_floor_def)

section \<open>The resolver on finite and on other numbers\<close>

text \<open>The three numbers the resolver prints, from the floored offset.\<close>

lemma hms_not_finite:
  assumes "\<not> is_finite off"
  defines "seconds \<equiv> js_rem off (Fin 60)"
  defines "minutes \<equiv> js_rem (js_div (js_sub off seconds) (Fin 60)) (Fin 60)"
  defines "hours \<equiv> js_div (js_sub (js_sub off seconds) (js_mul minutes (Fin 60))) (Fin 3600)"
  shows "seconds = NaN" "minutes = NaN" "hours = NaN"
proof -
  show s: "seconds = NaN"
    using assms(1) by (simp add: seconds_def js_rem_not_finite)
  show m: "minutes = NaN"
    by (simp add: minutes_def s)
  show "hours = NaN"
    by (simp add: hours_def m)
qed

lemma hms_finite:
  fixes n :: int
  assumes "is_finite off" "val off = of_int n"
  defines "q1 \<equiv> trunc (of_int n / 60)"
  defines "q2 \<equiv> trunc (of_int q1 / 60)"
  defines "seconds \<equiv> js_rem off (Fin 60)"
  defines "minutes \<equiv> js_rem (js_div (js_sub off seconds) (Fin 60)) (Fin 60)"
  defines "hours \<equiv> js_div (js_sub (js_sub off seconds) (js_mul minutes (Fin 60))) (Fin 3600)"
  shows "is_finite seconds \<and> val seconds = of_int (n - 60 * q1)"
    and "is_finite minutes \<and> val minutes = of_int (q1 - 60 * q2)"
    and "is_finite hours \<and> val hours = of_int q2"
proof -
  have f60: "is_finite (Fin 60)" "val (Fin 60) \<noteq> 0" "is_finite (Fin 3600)" "val (Fin 3600) \<noteq> 0"
    by simp_all
  show s: "is_finite seconds \<and> val seconds = of_int (n - 60 * q1)"
    using js_rem_finite [OF assms(1) f60(1,2)] by (simp add: seconds_def assms(2) q1_def)
  have d: "is_finite (js_sub off seconds) \<and> val (js_sub off seconds) = of_int (60 * q1)"
    using js_sub_finite [OF assms(1), of seconds] s by (simp add: assms(2))
  have q: "is_finite (js_div (js_sub off seconds) (Fin 60))
           \<and> val (js_div (js_sub off seconds) (Fin 60)) = of_int q1"
    using js_div_finite [OF _ f60(1,2), of "js_sub off seconds"] d by simp
  show m: "is_finite minutes \<and> val minutes = of_int (q1 - 60 * q2)"
    using js_rem_finite [OF _ f60(1,2), of "js_div (js_sub off seconds) (Fin 60)"] q
    by (simp add: minutes_def q2_def)
  have m60: "is_finite (js_mul minutes (Fin 60))
           \<and> val (js_mul minutes (Fin 60)) = of_int (60 * q1 - 3600 * q2)"
    using js_mul_finite [OF _ f60(1), of minutes] m by simp
  have e: "is_finite (js_sub (js_sub off seconds) (js_mul minutes (Fin 60)))
           \<and> val (js_sub (js_sub off seconds) (js_mul minutes (Fin 60))) = of_int (3600 * q2)"
    using js_sub_finite [of "js_sub off seconds" "js_mul minutes (Fin 60)"] d m60 by simp
  show "is_finite hours \<and> val hours = of_int q2"
    using js_div_finite [OF _ f60(3,4), of "js_sub (js_sub off seconds) (js_mul minutes (Fin 60))"] e
    by (simp add: hours_def)
qed

lemma calculateChapterTime_with_not_finite:
  assumes "\<not> js_lt (conv (start c)) (conv (assetStart c))"
    and "\<not> is_finite (js_add (js_sub (conv (start c)) (conv (assetStart c))) (conv (assetOffset c)))"
  shows "calculateChapterTime_with conv c = Some ''NaN:NaN:NaN''"
proof -
  let ?off = "js_floor (js_add (js_sub (conv (start c)) (conv (assetStart c))) (conv (assetOffset c)))"
  have nf: "\<not> is_finite ?off"
    using assms(2) by (simp add: js_floor_not_finite)
  show ?thesis
    using assms(1) hms_not_finite [OF nf]
    by (simp add: calculateChapterTime_with_def Let_def js_toString_def padStart_def)
qed

lemma calculateChapterTime_with_finite:
  fixes n :: int
  assumes "is_finite (conv (start c))" "is_finite (conv (assetStart c))"
    "is_finite (conv (assetOffset c))"
    and "\<not> js_lt (conv (start c)) (conv (assetStart c))"
  defines "n \<equiv> \<lfloor>val (conv (start c)) - val (conv (assetStart c)) + val (conv (assetOffset c))\<rfloor>"
  defines "q1 \<equiv> trunc (of_int n / 60)"
  defines "q2 \<equiv> trunc (of_int q1 / 60)"
  shows "calculateChapterTime_with conv c =
           Some (padStart 2 (int_text q2) @ '':'' @ padStart 2 (int_text (q1 - 60 * q2)) @ '':''
                 @ padStart 2 (int_text (n - 60 * q1)))"
proof -
  let ?x = "js_add (js_sub (conv (start c)) (conv (assetStart c))) (conv (assetOffset c))"
  have x: "is_finite ?x \<and> val ?x = val (conv (start c)) - val (conv (assetStart c)) + val (conv (assetOffset c))"
    using js_sub_finite [OF assms(1,2)] js_add_finite [OF _ assms(3), of "js_sub (conv (start c)) (conv (assetStart c))"]
    by simp
  have off: "is_finite (js_floor ?x)" "val (js_floor ?x) = of_int n"
    using js_floor_finite [of ?x] x by (simp_all add: n_def)
  note h = hms_finite [OF off, folded q1_def q2_def]
  show ?thesis
    using assms(4) js_toString_int [OF conjunct1 [OF h(1)] conjunct2 [OF h(1)]]
      js_toString_int [OF conjunct1 [OF h(2)] conjunct2 [OF h(2)]]
      js_toString_int [OF conjunct1 [OF h(3)] conjunct2 [OF h(3)]]
    by (simp add: calculateChapterTime_with_def Let_def)
qed

section \<open>Decimal text\<close>

lemma digit_char_is_digit: "d < 10 \<Longrightarrow> is_digit 10 (digit_char d)"
proof -
  assume "d < 10"
  then have "d \<in> {0, 1, 2, 3, 4, 5, 6, 7, 8, 9}" by auto
  then show ?thesis
    by (auto simp: digit_char_def is_digit_def digit_val_def)
qed


lemma nat_text_digits: "nat_text n \<noteq> [] \<and> list_all (is_digit 10) (nat_text n)"
proof (induction n rule: nat_text.induct)
  case (1 n)
  show ?case
  proof (cases "n < 10")
    case True
    then show ?thesis by (subst (1 2) nat_text.simps) (simp add: digit_char_is_digit)
  next
    case False
    then show ?thesis
      using 1 by (subst (1 2) nat_text.simps) (simp add: digit_char_is_digit)
  qed
qed




lemma length_nat_text: "length (nat_text n) = Suc 0 \<longleftrightarrow> n < 10"
proof (cases "n < 10")
  case True
  then show ?thesis by (subst nat_text.simps) simp
next
  case False
  then show ?thesis
    using nat_text_digits [of "n div 10"]
    by (subst nat_text.simps) (cases "nat_text (n div 10)"; simp)
qed





lemma padStart_int_text: "padStart 2 (int_text k) = two_digits k"
proof (cases "0 \<le> k \<and> k < 10")
  case True
  then have "nat k < 10" by linarith
  then have "length (nat_text (nat k)) = Suc 0" by (simp add: length_nat_text)
  then show ?thesis using True by (simp add: padStart_def two_digits_def int_text_def)
next
  case False
  have "2 \<le> length (int_text k)"
  proof (cases "k < 0")
    case True
    then show ?thesis
      using nat_text_digits [of "nat (- k)"] by (cases "nat_text (nat (- k))") (auto simp: int_text_def)
  next
    case nonneg: False
    then have "\<not> nat k < 10" using False by linarith
    then have "length (nat_text (nat k)) \<noteq> Suc 0" by (simp add: length_nat_text)
    then show ?thesis
      using nonneg nat_text_digits [of "nat k"] by (cases "nat_text (nat k)") (auto simp: int_text_def Suc_le_eq)
  qed
  then show ?thesis using False by (simp add: padStart_def two_digits_def)
qed




section \<open>Claims about the resolver\<close>


text \<open>
  The resolver prints integers or three times \<open>NaN\<close>, never a fraction and never an
  infinity.
\<close>

lemma resolver_numbers_integers:
  "case resolver_numbers conv c of
     (hours, minutes, seconds) \<Rightarrow>
       (hours = NaN \<and> minutes = NaN \<and> seconds = NaN)
       \<or> (\<exists>h m s :: int. is_finite hours \<and> val hours = of_int h
              \<and> is_finite minutes \<and> val minutes = of_int m
              \<and> is_finite seconds \<and> val seconds = of_int s)"
proof -
  let ?x = "js_add (js_sub (conv (start c)) (conv (assetStart c))) (conv (assetOffset c))"
  show ?thesis
  proof (cases "is_finite ?x")
    case True
    then have off: "is_finite (js_floor ?x)" "val (js_floor ?x) = of_int \<lfloor>val ?x\<rfloor>"
      using js_floor_finite [of ?x] by simp_all
    show ?thesis
      unfolding resolver_numbers_def Let_def prod.case
      using hms_finite [OF off] by blast
  next
    case False
    then have "\<not> is_finite (js_floor ?x)" by (simp add: js_floor_not_finite)
    then show ?thesis
      unfolding resolver_numbers_def Let_def prod.case
      using hms_not_finite [of "js_floor ?x"] by blast
  qed
qed

lemma calculateChapterTime_prints_integers:
  assumes "resolver_numbers conv c = (hours, minutes, seconds)"
  shows "(hours = NaN \<and> minutes = NaN \<and> seconds = NaN)
       \<or> (\<exists>h m s :: int. is_finite hours \<and> val hours = of_int h
              \<and> is_finite minutes \<and> val minutes = of_int m
              \<and> is_finite seconds \<and> val seconds = of_int s)"
  using resolver_numbers_integers [of conv c] by (simp add: assms)




section \<open>Evaluation on literals\<close>

lemmas nat_text_eval = nat_text.simps [of 0] nat_text.simps [of 1] nat_text.simps [of "Suc 0"]
  nat_text.simps [of "numeral k" for k]

lemmas read_int_eval = read_int_def read_nat_def all_digits_def is_digit_def digit_val_def
  digits_value_def

lemma floor_rat_eval:
  "\<lfloor>numeral a / numeral b :: rat\<rfloor> = numeral a div numeral b"
  "\<lfloor>- (numeral a / numeral b) :: rat\<rfloor> = - numeral a div numeral b"
  "\<lfloor>1 / numeral b :: rat\<rfloor> = 1 div numeral b"
  "\<lfloor>- (1 / numeral b) :: rat\<rfloor> = - 1 div numeral b"
  using floor_divide_of_int_eq [of "numeral a" "numeral b", where ?'a = rat]
    floor_divide_of_int_eq [of "- numeral a" "numeral b", where ?'a = rat]
    floor_divide_of_int_eq [of 1 "numeral b", where ?'a = rat]
    floor_divide_of_int_eq [of "- 1" "numeral b", where ?'a = rat]
  by simp_all

lemmas trunc_eval = trunc_def ceiling_def floor_rat_eval


text \<open>A rational time with a denominator other than zero converts, in both files, to the
  finite number it denotes.\<close>

lemma convert_literal:
  assumes "read_int a = Some n" "read_int b = Some d" "d \<noteq> 0"
  shows "is_finite (convertRationalNumber (JStr (a @ ''/'' @ b)))"
    and "val (convertRationalNumber (JStr (a @ ''/'' @ b))) = of_int n / of_int d"
    and "is_finite (convertRationalNumber_permissive (JStr (a @ ''/'' @ b)))"
    and "val (convertRationalNumber_permissive (JStr (a @ ''/'' @ b))) = of_int n / of_int d"
  using convert_two_parts(1,3) [OF assms(1,2)] quotient_of_literals [OF assms] by simp_all

lemma literal_values:
  "read_int ''7500'' = Some 7500" "read_int ''0'' = Some 0" "read_int ''3661'' = Some 3661"
  "read_int ''1'' = Some 1" "read_int ''-5'' = Some (- 5)" "read_int ''3600'' = Some 3600"
  "read_int ''125'' = Some 125" "read_int ''2'' = Some 2" "read_int ''10'' = Some 10"
  by (simp_all add: read_int_eval)

lemmas hms_text_eval = hms_text_def hms_of_def two_digits_def int_text_def nat_text_eval
  digit_char_def

text \<open>The resolver of either file on a record of three rational times with denominators
  other than zero.\<close>

lemma calculateChapterTime_literals:
  fixes k :: int and nm :: jsval
  assumes "read_int a = Some n1" "read_int b = Some d1" "d1 \<noteq> 0"
    and "read_int a' = Some n2" "read_int b' = Some d2" "d2 \<noteq> 0"
    and "read_int a'' = Some n3" "read_int b'' = Some d3" "d3 \<noteq> 0"
    and "(of_int n2 / of_int d2 :: rat) \<le> of_int n1 / of_int d1"
    and "k = \<lfloor>of_int n1 / of_int d1 - of_int n2 / of_int d2 + of_int n3 / of_int d3 :: rat\<rfloor>"
  defines "c \<equiv> \<lparr>name = nm, start = JStr (a @ ''/'' @ b), assetOffset = JStr (a'' @ ''/'' @ b''),
                  assetStart = JStr (a' @ ''/'' @ b')\<rparr>"
  defines "q1 \<equiv> trunc (of_int k / 60)"
  defines "q2 \<equiv> trunc (of_int q1 / 60)"
  shows "calculateChapterTime c =
           Some (two_digits q2 @ '':'' @ two_digits (q1 - 60 * q2) @ '':'' @ two_digits (k - 60 * q1))"
    and "calculateChapterTime_permissive c =
           Some (two_digits q2 @ '':'' @ two_digits (q1 - 60 * q2) @ '':'' @ two_digits (k - 60 * q1))"
proof -
  note s = convert_literal [OF assms(1-3)]
  note t = convert_literal [OF assms(4-6)]
  note u = convert_literal [OF assms(7-9)]
  have lt: "\<not> js_lt (convertRationalNumber (start c)) (convertRationalNumber (assetStart c))"
    "\<not> js_lt (convertRationalNumber_permissive (start c))
             (convertRationalNumber_permissive (assetStart c))"
    using assms(10) s t by (simp_all add: c_def js_lt_finite)
  show "calculateChapterTime c =
           Some (two_digits q2 @ '':'' @ two_digits (q1 - 60 * q2) @ '':'' @ two_digits (k - 60 * q1))"
    unfolding calculateChapterTime_def
    using calculateChapterTime_with_finite [of convertRationalNumber c] lt(1) s t u
    by (simp add: c_def assms(11) q1_def q2_def padStart_int_text)
  show "calculateChapterTime_permissive c =
           Some (two_digits q2 @ '':'' @ two_digits (q1 - 60 * q2) @ '':'' @ two_digits (k - 60 * q1))"
    unfolding calculateChapterTime_permissive_def
    using calculateChapterTime_with_finite [of convertRationalNumber_permissive c] lt(2) s t u
    by (simp add: c_def assms(11) q1_def q2_def padStart_int_text)
qed


lemma example_one_hour:
  "calculateChapterTime \<lparr>name = nm, start = JStr ''3661/1'', assetOffset = JStr ''0/1'',
      assetStart = JStr ''0/1''\<rparr> = Some ''01:01:01''"
  "calculateChapterTime_permissive \<lparr>name = nm, start = JStr ''3661/1'',
      assetOffset = JStr ''0/1'', assetStart = JStr ''0/1''\<rparr> = Some ''01:01:01''"
  using calculateChapterTime_literals [of "''3661''" 3661 "''1''" 1 "''0''" 0 "''1''" 1
      "''0''" 0 "''1''" 1 3661 nm]
  by (simp_all add: literal_values trunc_eval hms_text_eval)








section \<open>Claims about rejected and unparsable records\<close>

lemma push_times_eq:
  "push_times calc cs out = out @ map (output_line calc) (filter (valid_marker calc) cs)"
  by (induction cs arbitrary: out) (auto simp: valid_marker_def output_line_def split: option.splits)

lemma outputTimes_with_eq:
  "outputTimes_with calc cs = sort (map (output_line calc) (filter (valid_marker calc) cs))"
  by (simp add: outputTimes_with_def push_times_eq)

lemma calculateChapterTime_with_rejected:
  "js_lt (conv (start c)) (conv (assetStart c)) \<Longrightarrow> calculateChapterTime_with conv c = None"
  by (simp add: calculateChapterTime_with_def Let_def)


lemma valid_marker_iff:
  "valid_marker (calculateChapterTime_with conv) c \<longleftrightarrow> \<not> js_lt (conv (start c)) (conv (assetStart c))"
  by (simp add: valid_marker_def calculateChapterTime_with_def Let_def)

text \<open>
  C4. A record whose start converts to a number strictly below the converted assetStart
  makes \<^verbatim>\<open>calculateChapterTime\<close> return \<^verbatim>\<open>null\<close>, and the loop over the chapters pushes and
  prints what it would without that record, before and after it.
\<close>

theorem rejected_marker_dropped:
  assumes "js_lt (conv (start c)) (conv (assetStart c))"
  shows "calculateChapterTime_with conv c = None
       \<and> push_times (calculateChapterTime_with conv) (before @ c # after) out
           = push_times (calculateChapterTime_with conv) (before @ after) out
       \<and> outputTimes_with (calculateChapterTime_with conv) (before @ c # after)
           = outputTimes_with (calculateChapterTime_with conv) (before @ after)"
proof -
  have "\<not> valid_marker (calculateChapterTime_with conv) c"
    using assms by (simp add: valid_marker_iff)
  then show ?thesis
    using assms by (simp add: calculateChapterTime_with_rejected push_times_eq outputTimes_with_eq)
qed

lemma outputTimes_single:
  "outputTimes_with calc [c] = (if valid_marker calc c then [output_line calc c] else [])"
  by (simp add: outputTimes_with_eq)

theorem rejected_marker_dropped_witness:
  "js_lt (convertRationalNumber (JStr ''0/1'')) (convertRationalNumber (JStr ''10/1''))
   \<and> calculateChapterTime \<lparr>name = JStr ''Early'', start = JStr ''0/1'',
         assetOffset = JStr ''0/1'', assetStart = JStr ''10/1''\<rparr> = None
   \<and> outputTimes [\<lparr>name = JStr ''Early'', start = JStr ''0/1'', assetOffset = JStr ''0/1'',
                     assetStart = JStr ''10/1''\<rparr>,
                   \<lparr>name = JStr ''Intro'', start = JStr ''3661/1'', assetOffset = JStr ''0/1'',
                     assetStart = JStr ''0/1''\<rparr>] = [''01:01:01 Intro'']"
proof -
  let ?c = "\<lparr>name = JStr ''Early'', start = JStr ''0/1'', assetOffset = JStr ''0/1'',
              assetStart = JStr ''10/1''\<rparr>"
  let ?d = "\<lparr>name = JStr ''Intro'', start = JStr ''3661/1'', assetOffset = JStr ''0/1'',
              assetStart = JStr ''0/1''\<rparr>"
  have s: "is_finite (convertRationalNumber (JStr ''0/1''))"
    "val (convertRationalNumber (JStr ''0/1'')) = 0"
    using convert_literal(1,2) [OF literal_values(2) literal_values(4)] by simp_all
  have t: "is_finite (convertRationalNumber (JStr ''10/1''))"
    "val (convertRationalNumber (JStr ''10/1'')) = 10"
    using convert_literal(1,2) [OF literal_values(9) literal_values(4)] by simp_all
  have lt: "js_lt (convertRationalNumber (JStr ''0/1'')) (convertRationalNumber (JStr ''10/1''))"
    by (simp add: js_lt_finite s t)
  have d: "outputTimes_with calculateChapterTime [?d] = [''01:01:01 Intro'']"
    using example_one_hour(1) [of "JStr ''Intro''"]
    by (simp add: outputTimes_single valid_marker_def output_line_def)
  show ?thesis
    using rejected_marker_dropped [of convertRationalNumber ?c "[]" "[?d]"] lt d
    by (simp add: calculateChapterTime_def outputTimes_def)
qed

lemma not_finite_add: "\<not> is_finite x \<Longrightarrow> \<not> is_finite (js_add x y)"
  by (cases x; cases y) (simp_all add: js_add_def is_inf_def)

lemma not_finite_add2: "\<not> is_finite y \<Longrightarrow> \<not> is_finite (js_add x y)"
  by (cases x; cases y) (simp_all add: js_add_def is_inf_def)

lemma not_finite_sub: "\<not> is_finite x \<Longrightarrow> \<not> is_finite (js_sub x y)"
  by (simp add: js_sub_def not_finite_add)

lemma not_finite_sub2: "\<not> is_finite y \<Longrightarrow> \<not> is_finite (js_sub x y)"
  by (cases y) (simp_all add: js_sub_def js_neg_def not_finite_add2)

text \<open>A field that is not finite leaves the resolver two outcomes: rejection, or the string
  of three \<open>NaN\<close>.\<close>

lemma calculateChapterTime_with_field_not_finite:
  assumes "\<not> is_finite (conv (start c)) \<or> \<not> is_finite (conv (assetStart c))
           \<or> \<not> is_finite (conv (assetOffset c))"
  shows "calculateChapterTime_with conv c =
           (if js_lt (conv (start c)) (conv (assetStart c)) then None else Some ''NaN:NaN:NaN'')"
proof (cases "js_lt (conv (start c)) (conv (assetStart c))")
  case True
  then show ?thesis by (simp add: calculateChapterTime_with_rejected)
next
  case False
  have "\<not> is_finite (js_add (js_sub (conv (start c)) (conv (assetStart c))) (conv (assetOffset c)))"
    using assms not_finite_add not_finite_add2 not_finite_sub not_finite_sub2 by blast
  then show ?thesis
    using False by (simp add: calculateChapterTime_with_not_finite)
qed

text \<open>
  C5, amended. A record in which \<^verbatim>\<open>start\<close> or \<^verbatim>\<open>assetStart\<close> converts to \<open>NaN\<close> is not
  dropped: the resolver returns \<^verbatim>\<open>NaN:NaN:NaN\<close> and the record's line \<^verbatim>\<open>NaN:NaN:NaN <name>\<close>
  is printed. A record in which \<^verbatim>\<open>assetOffset\<close> converts to \<open>NaN\<close> is dropped when
  \<open>start < assetStart\<close> and gives the same line otherwise.
\<close>

theorem nan_marker_printed:
  assumes "conv (start c) = NaN \<or> conv (assetStart c) = NaN \<or> conv (assetOffset c) = NaN"
  shows "calculateChapterTime_with conv c =
           (if js_lt (conv (start c)) (conv (assetStart c)) then None else Some ''NaN:NaN:NaN'')
       \<and> outputTimes_with (calculateChapterTime_with conv) [c] =
           (if js_lt (conv (start c)) (conv (assetStart c)) then []
            else [''NaN:NaN:NaN '' @ js_text (name c)])
       \<and> (conv (start c) = NaN \<or> conv (assetStart c) = NaN
            \<longrightarrow> \<not> js_lt (conv (start c)) (conv (assetStart c)))"
proof -
  have nf: "\<not> is_finite (conv (start c)) \<or> \<not> is_finite (conv (assetStart c))
           \<or> \<not> is_finite (conv (assetOffset c))"
    using assms by auto
  have r: "calculateChapterTime_with conv c =
           (if js_lt (conv (start c)) (conv (assetStart c)) then None else Some ''NaN:NaN:NaN'')"
    using nf by (rule calculateChapterTime_with_field_not_finite)
  have "conv (start c) = NaN \<or> conv (assetStart c) = NaN
            \<longrightarrow> \<not> js_lt (conv (start c)) (conv (assetStart c))"
    by auto
  then show ?thesis
    using r by (simp add: outputTimes_single valid_marker_def output_line_def)
qed

lemma parseInt_abc: "parseInt ''abc'' = NaN"
  by (simp add: parseInt_def is_space_def is_digit_def digit_val_def Let_def)

lemma convert_abc:
  "convertRationalNumber (JStr ''abc/1'') = NaN"
  "convertRationalNumber_permissive (JStr ''abc/1'') = NaN"
  by (simp_all add: convertRationalNumber_def convertRationalNumber_permissive_def Let_def
      strip_s_def parseInt_abc)

theorem nan_marker_printed_witness:
  "convertRationalNumber (JStr ''abc/1'') = NaN
   \<and> calculateChapterTime \<lparr>name = JStr ''Intro'', start = JStr ''abc/1'',
         assetOffset = JStr ''0/1'', assetStart = JStr ''0/1''\<rparr> = Some ''NaN:NaN:NaN''
   \<and> outputTimes [\<lparr>name = JStr ''Intro'', start = JStr ''abc/1'',
         assetOffset = JStr ''0/1'', assetStart = JStr ''0/1''\<rparr>] = [''NaN:NaN:NaN Intro'']"
  using nan_marker_printed [of convertRationalNumber "\<lparr>name = JStr ''Intro'',
      start = JStr ''abc/1'', assetOffset = JStr ''0/1'', assetStart = JStr ''0/1''\<rparr>"]
  by (simp add: convert_abc calculateChapterTime_def outputTimes_def)

text \<open>
  C5 as stated fails in both files: the start \<^verbatim>\<open>abc/1\<close> converts to \<open>NaN\<close>, the resolver
  returns a string and the line is printed.
\<close>

theorem nan_marker_counterexample:
  "convertRationalNumber (JStr ''abc/1'') = NaN
   \<and> convertRationalNumber_permissive (JStr ''abc/1'') = NaN
   \<and> outputTimes [\<lparr>name = JStr ''Intro'', start = JStr ''abc/1'',
         assetOffset = JStr ''0/1'', assetStart = JStr ''0/1''\<rparr>] = [''NaN:NaN:NaN Intro'']
   \<and> outputTimes_permissive [\<lparr>name = JStr ''Intro'', start = JStr ''abc/1'',
         assetOffset = JStr ''0/1'', assetStart = JStr ''0/1''\<rparr>] = [''NaN:NaN:NaN Intro'']"
proof -
  let ?c = "\<lparr>name = JStr ''Intro'', start = JStr ''abc/1'', assetOffset = JStr ''0/1'',
              assetStart = JStr ''0/1''\<rparr>"
  have "calculateChapterTime_with convertRationalNumber ?c = Some ''NaN:NaN:NaN''"
    "calculateChapterTime_with convertRationalNumber_permissive ?c = Some ''NaN:NaN:NaN''"
    using calculateChapterTime_with_field_not_finite [of convertRationalNumber ?c]
      calculateChapterTime_with_field_not_finite [of convertRationalNumber_permissive ?c]
    by (simp_all add: convert_abc)
  then show ?thesis
    by (simp add: convert_abc outputTimes_def outputTimes_permissive_def calculateChapterTime_def
        calculateChapterTime_permissive_def outputTimes_single valid_marker_def output_line_def)
qed

section \<open>A zero denominator\<close>

lemma parseInt_positive:
  assumes "read_int a = Some n" "0 < n"
  shows "parseInt a = Fin (of_int n)"
  using assms by (simp add: parseInt_read_int fin_def)

lemma js_div_by_zero: "0 < r \<Longrightarrow> js_div (Fin r) (Fin 0) = PInf"
  by (simp add: js_div_def Let_def is_inf_def is_zero_def negative_def inf_of_def)

lemma convert_zero_denominator:
  assumes "read_int a = Some n" "0 < n"
  shows "convertRationalNumber (JStr (a @ ''/0'')) = PInf"
    and "convertRationalNumber (JStr (a @ ''/0s'')) = PInf"
    and "convertRationalNumber_permissive (JStr (a @ ''/0'')) = PInf"
    and "convertRationalNumber_permissive (JStr (a @ ''/0s'')) = PInf"
  using convert_two_parts [OF assms(1) literal_values(2)] parseInt_positive [OF assms]
    parseInt_read_int [OF literal_values(2)] assms(2)
  by (simp_all add: js_div_by_zero fin_def zero_of_def)

lemma calculateChapterTime_with_infinite_start:
  assumes "conv (start c) = PInf"
  shows "calculateChapterTime_with conv c = Some ''NaN:NaN:NaN''"
proof -
  have "\<not> js_lt (conv (start c)) (conv (assetStart c))"
    by (simp add: assms js_lt_def)
  then show ?thesis
    using calculateChapterTime_with_field_not_finite [of conv c] by (simp add: assms)
qed

text \<open>
  C10. Neither file guards the division: for a positive integer \<open>n\<close> the strings \<^verbatim>\<open>n/0\<close> and
  \<^verbatim>\<open>n/0s\<close> convert to plus infinity, not to 0, and a record with such a start is not
  rejected by \<^verbatim>\<open>calculateChapterTime\<close>, which returns \<^verbatim>\<open>NaN:NaN:NaN\<close> whatever the other two
  fields are; the line is printed.
\<close>

theorem zero_denominator_infinite:
  assumes "read_int a = Some n" and "0 < n"
  shows "convertRationalNumber (JStr (a @ ''/0'')) = PInf
       \<and> convertRationalNumber (JStr (a @ ''/0s'')) = PInf
       \<and> convertRationalNumber_permissive (JStr (a @ ''/0'')) = PInf
       \<and> convertRationalNumber_permissive (JStr (a @ ''/0s'')) = PInf
       \<and> (\<forall>c. start c = JStr (a @ ''/0'') \<or> start c = JStr (a @ ''/0s'') \<longrightarrow>
              calculateChapterTime c = Some ''NaN:NaN:NaN''
            \<and> calculateChapterTime_permissive c = Some ''NaN:NaN:NaN''
            \<and> outputTimes [c] = [''NaN:NaN:NaN '' @ js_text (name c)]
            \<and> outputTimes_permissive [c] = [''NaN:NaN:NaN '' @ js_text (name c)])"
proof -
  note z = convert_zero_denominator [OF assms]
  have "calculateChapterTime c = Some ''NaN:NaN:NaN''
            \<and> calculateChapterTime_permissive c = Some ''NaN:NaN:NaN''
            \<and> outputTimes [c] = [''NaN:NaN:NaN '' @ js_text (name c)]
            \<and> outputTimes_permissive [c] = [''NaN:NaN:NaN '' @ js_text (name c)]"
    if "start c = JStr (a @ ''/0'') \<or> start c = JStr (a @ ''/0s'')" for c
  proof -
    have "convertRationalNumber (start c) = PInf" "convertRationalNumber_permissive (start c) = PInf"
      using that z by auto
    then have "calculateChapterTime c = Some ''NaN:NaN:NaN''"
      "calculateChapterTime_permissive c = Some ''NaN:NaN:NaN''"
      by (simp_all add: calculateChapterTime_def calculateChapterTime_permissive_def
          calculateChapterTime_with_infinite_start)
    then show ?thesis
      by (simp add: outputTimes_def outputTimes_permissive_def outputTimes_single valid_marker_def
          output_line_def)
  qed
  then show ?thesis
    using z by blast
qed

theorem zero_denominator_infinite_witness:
  "read_int ''7500'' = Some 7500 \<and> (0 :: int) < 7500
   \<and> convertRationalNumber (JStr ''7500/0s'') = PInf
   \<and> calculateChapterTime \<lparr>name = JStr ''Intro'', start = JStr ''7500/0s'',
         assetOffset = JStr ''0/1'', assetStart = JStr ''0/1''\<rparr> = Some ''NaN:NaN:NaN''
   \<and> outputTimes_permissive [\<lparr>name = JStr ''Intro'', start = JStr ''7500/0s'',
         assetOffset = JStr ''0/1'', assetStart = JStr ''0/1''\<rparr>] = [''NaN:NaN:NaN Intro'']"
  using zero_denominator_infinite [OF literal_values(1)]
  by (simp add: literal_values)

section \<open>Malformed rational times\<close>

lemma not_string_is_empty:
  assumes "\<forall>s. v \<noteq> JStr s"
  shows "(case v of JStr s \<Rightarrow> s | _ \<Rightarrow> '''') = ''''"
  using assms by (cases v) simp_all

text \<open>\<^verbatim>\<open>src/index.js\<close> returns 0 for whatever is not a string, for the empty string and for
  every string that does not split into exactly two parts.\<close>

lemma convertRationalNumber_zero:
  "\<forall>s. v \<noteq> JStr s \<Longrightarrow> convertRationalNumber v = Fin 0"
  "convertRationalNumber (JStr '''') = Fin 0"
  "length (split_on CHR ''/'' (strip_s s)) \<noteq> 2 \<Longrightarrow> convertRationalNumber (JStr s) = Fin 0"
  by (simp_all add: convertRationalNumber_def Let_def not_string_is_empty strip_s_def)

lemma parseInt_empty: "parseInt '''' = NaN"
  by (simp add: parseInt_def)

text \<open>\<^verbatim>\<open>src/unnamed/part_000\<close> returns \<open>NaN\<close> for whatever is not a string and for the empty
  string.\<close>

lemma convertRationalNumber_permissive_not_string:
  "\<forall>s. v \<noteq> JStr s \<Longrightarrow> convertRationalNumber_permissive v = NaN"
  "convertRationalNumber_permissive (JStr '''') = NaN"
  by (simp_all add: convertRationalNumber_permissive_def Let_def not_string_is_empty strip_s_def
      parseInt_empty)

text \<open>
  C7. In \<^verbatim>\<open>src/index.js\<close> the empty string, a value that is not a string and a string of three
  parts convert to 0. In \<^verbatim>\<open>src/unnamed/part_000\<close> the first two convert to \<open>NaN\<close> and
  \<^verbatim>\<open>1/2/3\<close> to one half, the quotient of its first two parts.
\<close>

theorem convertRationalNumber_permissive_empty:
  "convertRationalNumber (JStr '''') = Fin 0
   \<and> convertRationalNumber JUndefined = Fin 0
   \<and> convertRationalNumber (JStr ''1/2/3'') = Fin 0
   \<and> convertRationalNumber_permissive (JStr '''') = NaN
   \<and> convertRationalNumber_permissive JUndefined = NaN
   \<and> convertRationalNumber_permissive (JStr ''1/2/3'') = Fin (1 / 2)"
proof -
  have parts: "split_on CHR ''/'' (strip_s ''1/2/3'') = [''1'', ''2'', ''3'']"
    by (simp add: strip_s_def Let_def)
  have p: "parseInt ''1'' = Fin 1" "parseInt ''2'' = Fin 2"
    using parseInt_read_int [OF literal_values(4)] parseInt_read_int [OF literal_values(8)]
    by (simp_all add: fin_def)
  have q: "js_div (Fin 1) (Fin 2) = Fin (1 / 2)"
    by (simp add: js_div_def is_inf_def is_zero_def fin_def)
  have "convertRationalNumber_permissive (JStr ''1/2/3'') = Fin (1 / 2)"
    unfolding convertRationalNumber_permissive_def Let_def jsval.case parts
    by (simp add: p q)
  moreover have "convertRationalNumber (JStr ''1/2/3'') = Fin 0"
    using convertRationalNumber_zero(3) [of "''1/2/3''"] by (simp add: parts)
  ultimately show ?thesis
    using convertRationalNumber_zero(1) [of JUndefined]
      convertRationalNumber_permissive_not_string(1) [of JUndefined]
    by (simp add: convertRationalNumber_zero(2) convertRationalNumber_permissive_not_string(2))
qed

section \<open>The sign of a converted time\<close>

lemma set_split_on: "p \<in> set (split_on d s) \<Longrightarrow> set p \<subseteq> set s"
proof (induction s arbitrary: p)
  case Nil
  then show ?case by simp
next
  case (Cons c cs)
  obtain q qs where r: "split_on d cs = q # qs"
    using split_on_not_Nil [of d cs] by (cases "split_on d cs") auto
  have q: "set q \<subseteq> set cs" and qs: "\<And>x. x \<in> set qs \<Longrightarrow> set x \<subseteq> set cs"
    using Cons.IH r by auto
  show ?case
    using Cons.prems q qs by (auto simp: Let_def r split: if_splits)
qed

lemma set_strip_s: "set (strip_s s) \<subseteq> set s"
  by (auto simp: strip_s_def dest: in_set_butlastD)

lemma parseInt_shape:
  "\<exists>z R. parseInt s =
     (if z = [] then NaN
      else fin ((if dropWhile is_space s \<noteq> [] \<and> hd (dropWhile is_space s) = CHR ''-''
                 then - 1 else 1) * of_nat (digits_value R z))
             (dropWhile is_space s \<noteq> [] \<and> hd (dropWhile is_space s) = CHR ''-''))"
  unfolding parseInt_def Let_def by blast

lemma parseInt_unsigned:
  assumes "CHR ''-'' \<notin> set s"
  shows "parseInt s = NaN \<or> (\<exists>k :: nat. parseInt s = Fin (of_nat k))"
proof -
  have neg: "\<not> (dropWhile is_space s \<noteq> [] \<and> hd (dropWhile is_space s) = CHR ''-'')"
  proof
    assume a: "dropWhile is_space s \<noteq> [] \<and> hd (dropWhile is_space s) = CHR ''-''"
    then have "CHR ''-'' \<in> set (dropWhile is_space s)"
      using hd_in_set [of "dropWhile is_space s"] by simp
    then have "CHR ''-'' \<in> set s"
      by (rule set_dropWhileD)
    then show False
      using assms by simp
  qed
  obtain z R where "parseInt s = (if z = [] then NaN else fin (of_nat (digits_value R z)) False)"
    using parseInt_shape [of s] by (simp only: neg if_False mult_1) blast
  then show ?thesis
    by (cases "z = []") (auto simp: fin_def zero_of_def)
qed

lemma js_div_unsigned:
  fixes a b :: nat
  shows "js_div (Fin (of_nat a)) (Fin (of_nat b)) = NaN
       \<or> non_negative (js_div (Fin (of_nat a)) (Fin (of_nat b)))"
proof -
  have "0 \<le> (of_nat a / of_nat b :: rat)" by simp
  then show ?thesis
    by (auto simp: js_div_def Let_def is_inf_def is_zero_def negative_def inf_of_def fin_def
        zero_of_def non_negative_def js_lt_def not_less)
qed

lemma non_negative_nat: "non_negative (Fin (of_nat k))"
  by (simp add: non_negative_def js_lt_def)

lemma quotient_unsigned:
  assumes "CHR ''-'' \<notin> set p" "CHR ''-'' \<notin> set q"
  shows "js_div (parseInt p) (parseInt q) = NaN \<or> non_negative (js_div (parseInt p) (parseInt q))"
proof -
  consider "parseInt p = NaN" | "parseInt q = NaN"
    | a b :: nat where "parseInt p = Fin (of_nat a)" "parseInt q = Fin (of_nat b)"
    using parseInt_unsigned [OF assms(1)] parseInt_unsigned [OF assms(2)] by blast
  then show ?thesis
  proof cases
    case 3
    then show ?thesis using js_div_unsigned [of a b] by simp
  qed simp_all
qed

text \<open>
  C8, amended. For every input string without a minus sign \<^verbatim>\<open>convertRationalNumber\<close> of either
  file returns \<open>NaN\<close> or a non-negative number, which may be plus infinity.
\<close>

theorem convertRationalNumber_sign:
  assumes "CHR ''-'' \<notin> set s"
  shows "(convertRationalNumber (JStr s) = NaN \<or> non_negative (convertRationalNumber (JStr s)))
       \<and> (convertRationalNumber_permissive (JStr s) = NaN
            \<or> non_negative (convertRationalNumber_permissive (JStr s)))"
proof -
  define parts where "parts = split_on CHR ''/'' (strip_s s)"
  have unsigned: "CHR ''-'' \<notin> set p" if "p \<in> set parts" for p
    using that assms set_split_on [of p "CHR ''/''" "strip_s s"] set_strip_s [of s]
    by (auto simp: parts_def)
  have ne: "parts \<noteq> []"
    by (simp add: parts_def)
  have strict: "convertRationalNumber (JStr s) =
      (if length parts \<noteq> 2 then Fin 0 else js_div (parseInt (parts ! 0)) (parseInt (parts ! 1)))"
    by (simp add: convertRationalNumber_def Let_def parts_def)
  have permissive: "convertRationalNumber_permissive (JStr s) =
      (if length parts = 1 then parseInt (parts ! 0)
       else js_div (parseInt (parts ! 0)) (parseInt (parts ! 1)))"
    by (simp add: convertRationalNumber_permissive_def Let_def parts_def)
  have zero: "non_negative (Fin 0)"
    using non_negative_nat [of 0] by simp
  have first: "CHR ''-'' \<notin> set (parts ! 0)"
    using ne by (intro unsigned nth_mem) simp
  have second: "CHR ''-'' \<notin> set (parts ! 1)" if "length parts \<noteq> 1"
  proof -
    have "1 < length parts"
      using ne that by (cases parts) auto
    then show ?thesis
      by (intro unsigned nth_mem)
  qed
  have one: "parseInt (parts ! 0) = NaN \<or> non_negative (parseInt (parts ! 0))"
    using parseInt_unsigned [OF first] non_negative_nat by auto
  show ?thesis
  proof (cases "length parts = 1")
    case True
    then show ?thesis
      using one zero by (simp add: strict permissive)
  next
    case False
    then show ?thesis
      using quotient_unsigned [OF first second] zero by (auto simp: strict permissive)
  qed
qed

theorem convertRationalNumber_sign_witness:
  "CHR ''-'' \<notin> set ''7500/7500s''
   \<and> convertRationalNumber (JStr ''7500/7500s'') = Fin 1 \<and> non_negative (Fin 1)
   \<and> CHR ''-'' \<notin> set ''abc/1'' \<and> convertRationalNumber (JStr ''abc/1'') = NaN"
proof -
  have a: "CHR ''-'' \<notin> set ''7500/7500s''"
    by simp
  have b: "convertRationalNumber (JStr ''7500/7500s'') = Fin 1"
    using convert_two_parts(2) [OF literal_values(1) literal_values(1)]
      parseInt_read_int [OF literal_values(1)]
    by (simp add: js_div_def is_inf_def is_zero_def fin_def)
  show ?thesis
    using convertRationalNumber_sign [OF a] by (simp add: b convert_abc)
qed

text \<open>
  C8 as stated fails in both files: \<^verbatim>\<open>parseInt\<close> reads a sign, and \<^verbatim>\<open>-5/1\<close> converts to -5.
\<close>

theorem convertRationalNumber_sign_counterexample:
  "convertRationalNumber (JStr ''-5/1'') = Fin (- 5)
   \<and> convertRationalNumber_permissive (JStr ''-5/1'') = Fin (- 5)
   \<and> \<not> non_negative (convertRationalNumber (JStr ''-5/1''))
   \<and> \<not> non_negative (convertRationalNumber_permissive (JStr ''-5/1''))"
proof -
  have p: "parseInt ''-5'' = Fin (- 5)" "parseInt ''1'' = Fin 1"
    using parseInt_read_int [OF literal_values(5)] parseInt_read_int [OF literal_values(4)]
    by (simp_all add: fin_def)
  have q: "js_div (Fin (- 5)) (Fin 1) = Fin (- 5)"
    by (simp add: js_div_def is_inf_def is_zero_def fin_def)
  have "convertRationalNumber (JStr ''-5/1'') = Fin (- 5)"
    "convertRationalNumber_permissive (JStr ''-5/1'') = Fin (- 5)"
    using convert_two_parts(1,3) [OF literal_values(5) literal_values(4)] by (simp_all add: p q)
  then show ?thesis
    by (simp add: non_negative_def js_lt_def)
qed

section \<open>Claims about the output\<close>






section \<open>Claims about the collector\<close>
















lemmas document_defs = flat_document_def nested_document_def document_def two_markers_def
  one_marker_clip_def three_records_def



lemma collected_examples:
  "findChapterMarkers flat_document [] = Inr three_records"
  "findChapterMarkers nested_document [] = Inr three_records"
  by (simp_all add: document_defs findChapterMarkers.simps is_object_def children_def
      node_markers_def has_own_def get_prop_def push_marker_def)


lemma index_js_clips:
  "spread (get_clips flat_document ''asset-clip'') =
     Inr [JObj [(''@_offset'', JStr ''0/1s''), (''@_start'', JStr ''0/1s''),
                (''chapter-marker'', two_markers)]]"
  "spread (get_clips flat_document ''ref-clip'') = Inr [one_marker_clip]"
  "spread (get_clips nested_document ''ref-clip'') = Inr []"
  by (simp_all add: flat_document_def nested_document_def document_def get_clips_def truthy_def
      spread_def one_marker_clip_def)

lemma index_js_flat:
  "forEach_clips [JObj [(''@_offset'', JStr ''0/1s''), (''@_start'', JStr ''0/1s''),
                        (''chapter-marker'', two_markers)], one_marker_clip] [] = Inr three_records"
  by (simp add: document_defs node_markers_def has_own_def get_prop_def push_marker_def)

lemma clips_chapters_examples:
  "clips_chapters flat_document = Inr three_records"
  "clips_chapters nested_document = Inr (take 2 three_records)"
proof -
  show "clips_chapters flat_document = Inr three_records"
    using index_js_flat by (simp add: clips_chapters_def index_js_clips)
  have a: "spread (get_clips nested_document ''asset-clip'') =
     Inr [JObj [(''@_offset'', JStr ''0/1s''), (''@_start'', JStr ''0/1s''),
                (''chapter-marker'', two_markers),
                (''spine'', JObj [(''ref-clip'', one_marker_clip)])]]"
    by (simp add: nested_document_def document_def get_clips_def truthy_def spread_def)
  have "clips_chapters nested_document =
      forEach_clips [JObj [(''@_offset'', JStr ''0/1s''), (''@_start'', JStr ''0/1s''),
                (''chapter-marker'', two_markers),
                (''spine'', JObj [(''ref-clip'', one_marker_clip)])]] []"
    by (simp only: clips_chapters_def a index_js_clips(3) sum.case append_Nil2)
  also have "\<dots> = Inr (take 2 three_records)"
    by (simp add: document_defs node_markers_def has_own_def get_prop_def push_marker_def)
  finally show "clips_chapters nested_document = Inr (take 2 three_records)" .
qed



section \<open>The example documents from the parsed tree to the printed lines\<close>

lemma convert_seconds_literal:
  assumes "read_int a = Some n" "0 < n \<or> n < 0"
  shows "convertRationalNumber (JStr (a @ ''/1s'')) = Fin (of_int n)"
    and "convertRationalNumber_permissive (JStr (a @ ''/1s'')) = Fin (of_int n)"
  using convert_two_parts(2,4) [OF assms(1) literal_values(4)] parseInt_read_int [OF assms(1)]
    parseInt_read_int [OF literal_values(4)] assms(2)
  by (auto simp: fin_def js_div_def is_inf_def is_zero_def)

lemma convert_zero_literal:
  "convertRationalNumber (JStr ''0/1s'') = Fin 0"
  "convertRationalNumber_permissive (JStr ''0/1s'') = Fin 0"
  using convert_two_parts(2,4) [OF literal_values(2) literal_values(4)]
    parseInt_read_int [OF literal_values(2)] parseInt_read_int [OF literal_values(4)]
  by (simp_all add: fin_def zero_of_def js_div_def is_inf_def is_zero_def negative_def)

lemma more_literal_values:
  "read_int ''60'' = Some 60" "read_int ''100'' = Some 100" "read_int ''5'' = Some 5"
  "read_int ''20'' = Some 20"
  by (simp_all add: read_int_eval)

lemma example_conversions:
  "convertRationalNumber (JStr ''10/1s'') = Fin 10"
  "convertRationalNumber (JStr ''60/1s'') = Fin 60"
  "convertRationalNumber (JStr ''100/1s'') = Fin 100"
  "convertRationalNumber (JStr ''5/1s'') = Fin 5"
  "convertRationalNumber (JStr ''20/1s'') = Fin 20"
  "convertRationalNumber_permissive (JStr ''10/1s'') = Fin 10"
  "convertRationalNumber_permissive (JStr ''60/1s'') = Fin 60"
  "convertRationalNumber_permissive (JStr ''100/1s'') = Fin 100"
  "convertRationalNumber_permissive (JStr ''5/1s'') = Fin 5"
  "convertRationalNumber_permissive (JStr ''20/1s'') = Fin 20"
  using convert_seconds_literal [OF literal_values(9)] convert_seconds_literal [OF more_literal_values(1)]
    convert_seconds_literal [OF more_literal_values(2)] convert_seconds_literal [OF more_literal_values(3)]
    convert_seconds_literal [OF more_literal_values(4)]
  by simp_all

lemma calculateChapterTime_with_values:
  fixes k :: int
  assumes "conv (start c) = Fin a" "conv (assetStart c) = Fin b" "conv (assetOffset c) = Fin d"
    and "b \<le> a" and "k = \<lfloor>a - b + d\<rfloor>"
  shows "calculateChapterTime_with conv c =
           Some (two_digits (trunc (of_int (trunc (of_int k / 60)) / 60)) @ '':''
                 @ two_digits (trunc (of_int k / 60) - 60 * trunc (of_int (trunc (of_int k / 60)) / 60))
                 @ '':'' @ two_digits (k - 60 * trunc (of_int k / 60)))"
  using calculateChapterTime_with_finite [of conv c] assms
  by (simp add: js_lt_def padStart_int_text)

lemma three_records_times:
  "map calculateChapterTime three_records = [Some ''00:00:10'', Some ''00:01:00'', Some ''00:01:55'']"
  "map calculateChapterTime_permissive three_records
     = [Some ''00:00:10'', Some ''00:01:00'', Some ''00:01:55'']"
proof -
  have "calculateChapterTime_with conv c = Some ''00:00:10''"
    if "conv (start c) = Fin 10" "conv (assetStart c) = Fin 0" "conv (assetOffset c) = Fin 0"
    for conv c
    using calculateChapterTime_with_values [OF that, of 10]
    by (simp add: trunc_eval hms_text_eval)
  moreover have "calculateChapterTime_with conv c = Some ''00:01:00''"
    if "conv (start c) = Fin 60" "conv (assetStart c) = Fin 0" "conv (assetOffset c) = Fin 0"
    for conv c
    using calculateChapterTime_with_values [OF that, of 60]
    by (simp add: trunc_eval hms_text_eval)
  moreover have "calculateChapterTime_with conv c = Some ''00:01:55''"
    if "conv (start c) = Fin 20" "conv (assetStart c) = Fin 5" "conv (assetOffset c) = Fin 100"
    for conv c
    using calculateChapterTime_with_values [OF that, of 115]
    by (simp add: trunc_eval hms_text_eval)
  ultimately show
    "map calculateChapterTime three_records = [Some ''00:00:10'', Some ''00:01:00'', Some ''00:01:55'']"
    "map calculateChapterTime_permissive three_records
       = [Some ''00:00:10'', Some ''00:01:00'', Some ''00:01:55'']"
    by (simp_all add: three_records_def calculateChapterTime_def calculateChapterTime_permissive_def
        example_conversions convert_zero_literal)
qed

text \<open>Both scripts print the same three lines for the flat document; for the nested one
  \<^verbatim>\<open>src/index.js\<close> misses the clip that is not in the spine.\<close>

lemma scripts_on_examples:
  "part_000 flat_document = Inr [''00:00:10 Intro'', ''00:01:00 Middle'', ''00:01:55 End'']"
  "index_js flat_document = Inr [''00:00:10 Intro'', ''00:01:00 Middle'', ''00:01:55 End'']"
  "part_000 nested_document = Inr [''00:00:10 Intro'', ''00:01:00 Middle'', ''00:01:55 End'']"
  "index_js nested_document = Inr [''00:00:10 Intro'', ''00:01:00 Middle'']"
  using three_records_times
  by (simp_all add: part_000_def index_js_def collected_examples clips_chapters_examples
      outputTimes_def outputTimes_permissive_def outputTimes_with_eq valid_marker_def
      output_line_def three_records_def)

end
